theory Spec2Isabelle
  imports Main
begin

section \<open>Data model\<close>

text \<open>
  The Prisma schema of the repository declares two tables. A row of \<open>users\<close> and a row of
  \<open>tokens\<close> are records; the two enums are datatypes. Identifiers are the strings the
  database stores. Timestamps are milliseconds since the epoch (what a JavaScript
  \<open>Date\<close> and a \<open>dayjs\<close> value hold). The columns \<open>createdAt\<close> and \<open>updatedAt\<close> are
  filled in by the database and read by none of the functions below; they are left out.
  The constraints are those of the migration: the primary keys, the unique indexes on
  \<open>users.email\<close> and on \<open>tokens.token\<close>, and the foreign key from \<open>tokens.userId\<close> to
  \<open>users.id\<close> with \<open>ON DELETE CASCADE\<close>.
  The field \<open>user_password\<close> is optional because the service functions that \<open>select\<close>
  a user without its password return an object that lacks the property; every stored row
  has it.
\<close>

datatype Role = USER | ADMIN

datatype TokenType = ACCESS | REFRESH | RESET_PASSWORD | VERIFY_EMAIL

record User =
  user_id :: string
  user_email :: string
  user_password :: "string option"
  user_name :: string
  user_role :: Role
  user_isEmailVerified :: bool

text \<open>The claim set that \<open>generateToken\<close> signs (interface \<open>TokenPayload\<close>).\<close>

record TokenPayload =
  payload_sub :: string
  payload_iat :: int
  payload_exp :: int
  payload_type :: TokenType

text \<open>
  A token string is modelled symbolically. \<open>Signed p k\<close> is the compact JWT that
  \<open>jwt.sign\<close> produces for the claims \<open>p\<close> under the HMAC key \<open>k\<close>; the claims are part
  of the string (its middle segment is their encoding), so two such strings are equal
  exactly when claims and key are. \<open>Opaque s\<close> is any other string, for example the
  \<open>'sample-token'\<close> that the tests store.
\<close>

datatype jwt_string = Signed TokenPayload string | Opaque string

record Token =
  token_id :: string
  token_token :: jwt_string
  token_type :: TokenType
  token_expires :: int
  token_blacklisted :: bool
  token_userId :: string

text \<open>The database: both tables, rows in insertion order.\<close>

record world =
  users :: "User list"
  tokens :: "Token list"

text \<open>
  Everything a function can throw. \<open>ApiError\<close> carries the HTTP status and the message;
  the other constructors are the errors of plain JavaScript, of \<open>jsonwebtoken\<close> and of
  the Prisma client.
\<close>

datatype error =
    ApiError nat string
  | Error string
  | JsonWebTokenError string
  | TokenExpiredError string
  | PrismaClientKnownRequestError string

text \<open>
  An asynchronous function of the services either resolves or rejects, and in both cases
  leaves a database behind: its model returns the outcome together with the new
  \<^typ>\<open>world\<close>.
\<close>

type_synonym 'a result = "(error + 'a) \<times> world"

text \<open>The part of \<open>config.jwt\<close> that the services read.\<close>

record jwt_config =
  secret :: string
  accessExpirationMinutes :: int
  refreshExpirationDays :: int
  resetPasswordExpirationMinutes :: int
  verifyEmailExpirationMinutes :: int

section \<open>Time\<close>

text \<open>
  \<open>dayjs().unix()\<close> is the timestamp in whole seconds, rounded down. Adding minutes
  adds multiples of 60000 ms to the timestamp. Adding days goes through the calendar:
  \<open>dayjs\<close> calls \<open>Date.prototype.setDate\<close>, which converts the instant to local time,
  moves it by whole days of 86400000 ms on the local scale and converts the result back.
  The two conversions belong to the time zone of the process, which is a parameter of
  the model: \<open>offset_at\<close> is the offset of local time from UTC at an instant, and
  \<open>offset_of_local\<close> is the offset that the zone assigns to a local time. In \<open>utc\<close>
  both are zero and a day is 86400000 ms; across a clock change the result differs from
  that by the change. The configured durations are whole numbers.
\<close>

definition unix :: "int \<Rightarrow> int" where
  "unix t = t div 1000"

definition add_minutes :: "int \<Rightarrow> int \<Rightarrow> int" where
  "add_minutes t n = t + n * 60000"

record time_zone =
  offset_at :: "int \<Rightarrow> int"
  offset_of_local :: "int \<Rightarrow> int"

definition utc :: time_zone where
  "utc = \<lparr>offset_at = (\<lambda>t. 0), offset_of_local = (\<lambda>t. 0)\<rparr>"

definition add_days :: "time_zone \<Rightarrow> int \<Rightarrow> int \<Rightarrow> int" where
  "add_days tz t n =
     (let local = t + offset_at tz t + n * 86400000
      in local - offset_of_local tz local)"

section \<open>The token codec (jsonwebtoken)\<close>

text \<open>
  \<open>jwt.sign(payload, secret)\<close> refuses an empty key. \<open>jwt.verify(token, secret)\<close> rejects a
  string that is no JWT, a missing key and a signature made with another key with a
  \<open>JsonWebTokenError\<close>, and then a token whose \<open>exp\<close> is not after the current time in
  seconds with a \<open>TokenExpiredError\<close>; otherwise it returns the claims. The argument
  \<open>now\<close> is the clock reading (in ms) that the library takes when it is called.
\<close>

definition jwt_sign :: "TokenPayload \<Rightarrow> string \<Rightarrow> error + jwt_string" where
  "jwt_sign payload key =
     (if key = [] then Inl (Error ''secretOrPrivateKey must have a value'')
      else Inr (Signed payload key))"

definition jwt_verify :: "int \<Rightarrow> jwt_string \<Rightarrow> string \<Rightarrow> error + TokenPayload" where
  "jwt_verify now token key =
     (case token of
        Opaque s \<Rightarrow> Inl (JsonWebTokenError ''jwt malformed'')
      | Signed payload k \<Rightarrow>
          if key = [] then Inl (JsonWebTokenError ''secret or public key must be provided'')
          else if k \<noteq> key then Inl (JsonWebTokenError ''invalid signature'')
          else if unix now \<ge> payload_exp payload then Inl (TokenExpiredError ''jwt expired'')
          else Inr payload)"

section \<open>The token table (Prisma client)\<close>

text \<open>
  \<open>create\<close> inserts a row under a newly generated identifier, here the argument
  \<open>new_id\<close>. The database rejects a duplicate primary key, a token string that another
  row already holds, and a \<open>userId\<close> that refers to no user. \<open>findFirst\<close> returns the
  first matching row, \<open>delete\<close> removes the row with
  the given identifier and fails when there is none, \<open>deleteMany\<close> removes every
  matching row and returns how many there were.
\<close>

definition token_create :: "string \<Rightarrow> jwt_string \<Rightarrow> string \<Rightarrow> int \<Rightarrow> TokenType \<Rightarrow> bool \<Rightarrow> world \<Rightarrow> Token result" where
  "token_create new_id token userId expires type blacklisted w =
     (if new_id \<in> set (map token_id (tokens w))
      then (Inl (PrismaClientKnownRequestError ''P2002''), w)
      else if token \<in> set (map token_token (tokens w))
      then (Inl (PrismaClientKnownRequestError ''P2002''), w)
      else if userId \<notin> set (map user_id (users w))
      then (Inl (PrismaClientKnownRequestError ''P2003''), w)
      else
        (let doc = \<lparr>token_id = new_id, token_token = token, token_type = type,
                     token_expires = expires, token_blacklisted = blacklisted,
                     token_userId = userId\<rparr>
         in (Inr doc, w\<lparr>tokens := tokens w @ [doc]\<rparr>)))"

definition token_findFirst :: "(Token \<Rightarrow> bool) \<Rightarrow> world \<Rightarrow> Token option" where
  "token_findFirst wh w = find wh (tokens w)"

definition token_delete :: "string \<Rightarrow> world \<Rightarrow> Token result" where
  "token_delete i w =
     (case find (\<lambda>r. token_id r = i) (tokens w) of
        None \<Rightarrow> (Inl (PrismaClientKnownRequestError ''P2025''), w)
      | Some doc \<Rightarrow> (Inr doc, w\<lparr>tokens := filter (\<lambda>r. token_id r \<noteq> i) (tokens w)\<rparr>))"

definition token_deleteMany :: "(Token \<Rightarrow> bool) \<Rightarrow> world \<Rightarrow> nat result" where
  "token_deleteMany wh w =
     (Inr (length (filter wh (tokens w))), w\<lparr>tokens := filter (\<lambda>r. \<not> wh r) (tokens w)\<rparr>)"

section \<open>token.service\<close>

text \<open>
  \<open>generateToken\<close> reads the clock once for \<open>iat\<close> (the argument \<open>now\<close>); the secret
  defaults to \<open>config.jwt.secret\<close> and is passed explicitly here.
\<close>

definition generateToken :: "int \<Rightarrow> string \<Rightarrow> int \<Rightarrow> TokenType \<Rightarrow> string \<Rightarrow> error + jwt_string" where
  "generateToken now userId expires type key =
     jwt_sign \<lparr>payload_sub = userId, payload_iat = unix now,
               payload_exp = unix expires, payload_type = type\<rparr> key"

definition saveToken :: "string \<Rightarrow> jwt_string \<Rightarrow> string \<Rightarrow> int \<Rightarrow> TokenType \<Rightarrow> bool \<Rightarrow> world \<Rightarrow> Token result" where
  "saveToken new_id token userId expires type blacklisted w =
     token_create new_id token userId expires type blacklisted w"

definition verifyToken :: "jwt_config \<Rightarrow> int \<Rightarrow> jwt_string \<Rightarrow> TokenType \<Rightarrow> world \<Rightarrow> Token result" where
  "verifyToken cfg now token type w =
     (case jwt_verify now token (secret cfg) of
        Inl e \<Rightarrow> (Inl e, w)
      | Inr payload \<Rightarrow>
          (case token_findFirst
                  (\<lambda>r. token_token r = token \<and> token_type r = type \<and>
                       token_userId r = payload_sub payload \<and> token_blacklisted r = False) w of
             None \<Rightarrow> (Inl (Error ''Token not found''), w)
           | Some tokenDoc \<Rightarrow> (Inr tokenDoc, w)))"

text \<open>
  What \<open>generateAuthTokens\<close> takes from outside, besides the time zone of the process:
  four clock readings, in the order the function makes them, and the identifier generated
  for the new row.
\<close>

record auth_inputs =
  clock_access :: int
  clock_access_iat :: int
  clock_refresh :: int
  clock_refresh_iat :: int
  refresh_row_id :: string

record TokenWithExpiry =
  token :: jwt_string
  expires :: int

record AuthTokens =
  access :: TokenWithExpiry
  refresh :: TokenWithExpiry

definition generateAuthTokens :: "jwt_config \<Rightarrow> time_zone \<Rightarrow> auth_inputs \<Rightarrow> User \<Rightarrow> world \<Rightarrow> AuthTokens result" where
  "generateAuthTokens cfg tz inp user w =
     (let accessTokenExpires = add_minutes (clock_access inp) (accessExpirationMinutes cfg) in
      case generateToken (clock_access_iat inp) (user_id user) accessTokenExpires ACCESS (secret cfg) of
        Inl e \<Rightarrow> (Inl e, w)
      | Inr accessToken \<Rightarrow>
          (let refreshTokenExpires = add_days tz (clock_refresh inp) (refreshExpirationDays cfg) in
           case generateToken (clock_refresh_iat inp) (user_id user) refreshTokenExpires REFRESH (secret cfg) of
             Inl e \<Rightarrow> (Inl e, w)
           | Inr refreshToken \<Rightarrow>
               (case saveToken (refresh_row_id inp) refreshToken (user_id user) refreshTokenExpires REFRESH False w of
                  (Inl e, w') \<Rightarrow> (Inl e, w')
                | (Inr _, w') \<Rightarrow>
                    (Inr \<lparr>access = \<lparr>token = accessToken, expires = accessTokenExpires\<rparr>,
                          refresh = \<lparr>token = refreshToken, expires = refreshTokenExpires\<rparr>\<rparr>, w'))))"

section \<open>utils/validation\<close>

text \<open>
  Strings are lists of 8-bit characters; the models of the regular expressions below are
  exact on ASCII input. \<open>validateUuid\<close> is the \<open>validate\<close> function of the \<open>uuid\<close>
  package: 36 characters, hyphens at positions 8, 13, 18 and 23, hexadecimal digits
  elsewhere (in either case), a version digit from 1 to 8 and a variant digit among
  8, 9, a, b; or the nil or the max UUID. No property below depends on more of it than
  that it rejects the strings it is run on.
\<close>

definition is_hex :: "char \<Rightarrow> bool" where
  "is_hex c = (c \<in> set ''0123456789abcdefABCDEF'')"

definition validateUuid :: "string \<Rightarrow> bool" where
  "validateUuid s =
     (length s = 36 \<and>
      list_all (\<lambda>i. if i \<in> {8, 13, 18, 23} then s ! i = CHR ''-'' else is_hex (s ! i)) [0..<36] \<and>
      ((s ! 14 \<in> set ''12345678'' \<and> s ! 19 \<in> set ''89abAB'') \<or>
       s = ''00000000-0000-0000-0000-000000000000'' \<or>
       map (\<lambda>c. if c = CHR ''F'' then CHR ''f'' else c) s = ''ffffffff-ffff-ffff-ffff-ffffffffffff''))"

text \<open>\<open>/^c[a-z0-9]{24}$/\<close>, after the guard that rejects the empty string.\<close>

definition isValidCuid :: "string \<Rightarrow> bool" where
  "isValidCuid cuid =
     (if cuid = [] then False
      else hd cuid = CHR ''c'' \<and> length (tl cuid) = 24 \<and>
           list_all (\<lambda>c. c \<in> set ''abcdefghijklmnopqrstuvwxyz0123456789'') (tl cuid))"

definition isValidUuid :: "string \<Rightarrow> bool" where
  "isValidUuid i = (if i = [] then False else validateUuid i \<or> isValidCuid i)"

definition is_space :: "char \<Rightarrow> bool" where
  "is_space c = (c \<in> set [CHR '' '', CHR 0x09, CHR 0x0A, CHR 0x0B, CHR 0x0C, CHR 0x0D])"

definition trim :: "string \<Rightarrow> string" where
  "trim s = rev (dropWhile is_space (rev (dropWhile is_space s)))"

definition lower_char :: "char \<Rightarrow> char" where
  "lower_char c =
     (case map_of (zip ''ABCDEFGHIJKLMNOPQRSTUVWXYZ'' ''abcdefghijklmnopqrstuvwxyz'') c of
        None \<Rightarrow> c
      | Some l \<Rightarrow> l)"

definition toLowerCase :: "string \<Rightarrow> string" where
  "toLowerCase s = map lower_char s"

text \<open>
  \<open>/^[^\s@]+@[^\s@]+\.[^\s@]+$/\<close>: a non-empty local part up to the first \<open>@\<close>, and after
  it a domain without \<open>@\<close> that has a dot which is neither its first nor its last
  character; no white space anywhere.
\<close>

definition emailRegex_test :: "string \<Rightarrow> bool" where
  "emailRegex_test s =
     (let local_part = takeWhile (\<lambda>c. c \<noteq> CHR ''@'') s;
          rest = dropWhile (\<lambda>c. c \<noteq> CHR ''@'') s
      in local_part \<noteq> [] \<and> rest \<noteq> [] \<and>
         list_all (\<lambda>c. \<not> is_space c) s \<and>
         CHR ''@'' \<notin> set (tl rest) \<and>
         CHR ''.'' \<in> set (butlast (tl (tl rest))))"

definition isValidEmail :: "string \<Rightarrow> bool" where
  "isValidEmail email =
     (if email = [] then False
      else emailRegex_test (toLowerCase (trim email)) \<and> length email \<le> 255)"

section \<open>The user table (Prisma client)\<close>

text \<open>
  \<open>email\<close> is declared \<open>@unique\<close>: the database (PostgreSQL) compares it character by
  character. \<open>create\<close> and \<open>update\<close> fail on a duplicate key; \<open>update\<close> changes the
  fields that are given and fails when no row has the identifier. \<open>delete\<close> removes the
  row with the identifier and, by the cascade of the foreign key, every token row that
  refers to it. The fields of the two
  input records carry a prefix, since \<open>CreateUserData\<close> of the user service has the
  plain names.
\<close>

record UserCreateInput =
  create_name :: string
  create_email :: string
  create_password :: string
  create_role :: Role
  create_isEmailVerified :: "bool option"

record UpdateUserData =
  update_name :: "string option"
  update_email :: "string option"
  update_password :: "string option"
  update_role :: "Role option"
  update_isEmailVerified :: "bool option"

definition user_findFirst :: "(User \<Rightarrow> bool) \<Rightarrow> world \<Rightarrow> User option" where
  "user_findFirst wh w = find wh (users w)"

definition user_create :: "string \<Rightarrow> UserCreateInput \<Rightarrow> world \<Rightarrow> User result" where
  "user_create new_id d w =
     (if new_id \<in> set (map user_id (users w)) \<or> create_email d \<in> set (map user_email (users w))
      then (Inl (PrismaClientKnownRequestError ''P2002''), w)
      else
        (let u = \<lparr>user_id = new_id, user_email = create_email d,
                   user_password = Some (create_password d), user_name = create_name d,
                   user_role = create_role d,
                   user_isEmailVerified =
                     (case create_isEmailVerified d of None \<Rightarrow> False | Some b \<Rightarrow> b)\<rparr>
         in (Inr u, w\<lparr>users := users w @ [u]\<rparr>)))"

definition apply_update :: "UpdateUserData \<Rightarrow> User \<Rightarrow> User" where
  "apply_update d u =
     u\<lparr>user_name := (case update_name d of None \<Rightarrow> user_name u | Some v \<Rightarrow> v),
       user_email := (case update_email d of None \<Rightarrow> user_email u | Some v \<Rightarrow> v),
       user_password := (case update_password d of None \<Rightarrow> user_password u | Some v \<Rightarrow> Some v),
       user_role := (case update_role d of None \<Rightarrow> user_role u | Some v \<Rightarrow> v),
       user_isEmailVerified :=
         (case update_isEmailVerified d of None \<Rightarrow> user_isEmailVerified u | Some v \<Rightarrow> v)\<rparr>"

definition user_update :: "string \<Rightarrow> UpdateUserData \<Rightarrow> world \<Rightarrow> User result" where
  "user_update i d w =
     (case find (\<lambda>u. user_id u = i) (users w) of
        None \<Rightarrow> (Inl (PrismaClientKnownRequestError ''P2025''), w)
      | Some u \<Rightarrow>
          (case update_email d of
             Some e \<Rightarrow>
               if e \<in> set (map user_email (filter (\<lambda>v. user_id v \<noteq> i) (users w)))
               then (Inl (PrismaClientKnownRequestError ''P2002''), w)
               else (Inr (apply_update d u),
                     w\<lparr>users := map (\<lambda>v. if user_id v = i then apply_update d v else v) (users w)\<rparr>)
           | None \<Rightarrow>
               (Inr (apply_update d u),
                w\<lparr>users := map (\<lambda>v. if user_id v = i then apply_update d v else v) (users w)\<rparr>)))"

definition user_delete :: "string \<Rightarrow> world \<Rightarrow> User result" where
  "user_delete i w =
     (case find (\<lambda>u. user_id u = i) (users w) of
        None \<Rightarrow> (Inl (PrismaClientKnownRequestError ''P2025''), w)
      | Some u \<Rightarrow>
          (Inr u, w\<lparr>users := filter (\<lambda>v. user_id v \<noteq> i) (users w),
                    tokens := filter (\<lambda>r. token_userId r \<noteq> i) (tokens w)\<rparr>))"

section \<open>user.service\<close>

text \<open>
  \<open>bcrypt.hash(password, 8)\<close> is the argument \<open>hash\<close> of the functions that call it,
  and \<open>bcrypt.compare\<close> the argument \<open>compare\<close>; the latter throws when the user object
  has no password.
  An optional string argument is ``given'' in the sense of JavaScript when it is
  present and not empty.
\<close>

definition without_password :: "User \<Rightarrow> User" where
  "without_password u = u\<lparr>user_password := None\<rparr>"

definition isEmailTaken :: "string \<Rightarrow> string option \<Rightarrow> world \<Rightarrow> bool result" where
  "isEmailTaken email excludeUserId w =
     (let wh = (\<lambda>u. user_email u = email \<and>
                    (case excludeUserId of
                       None \<Rightarrow> True
                     | Some x \<Rightarrow> if x = [] then True else user_id u \<noteq> x))
      in (Inr (user_findFirst wh w \<noteq> None), w))"

record CreateUserData =
  name :: string
  email :: string
  password :: string
  role :: "Role option"
  isEmailVerified :: "bool option"

definition createUser :: "(string \<Rightarrow> string) \<Rightarrow> string \<Rightarrow> CreateUserData \<Rightarrow> world \<Rightarrow> User result" where
  "createUser hash new_id userBody w =
     (if \<not> isValidEmail (email userBody) then (Inl (ApiError 400 ''Invalid email format''), w)
      else
        (case isEmailTaken (email userBody) None w of
           (Inl e, w1) \<Rightarrow> (Inl e, w1)
         | (Inr True, w1) \<Rightarrow> (Inl (ApiError 400 ''Email already taken''), w1)
         | (Inr False, w1) \<Rightarrow>
             (let hashedPassword = hash (password userBody) in
              case user_create new_id
                     \<lparr>create_name = name userBody, create_email = email userBody,
                      create_password = hashedPassword,
                      create_role = (case role userBody of None \<Rightarrow> USER | Some r \<Rightarrow> r),
                      create_isEmailVerified = isEmailVerified userBody\<rparr> w1 of
                (Inl e, w2) \<Rightarrow> (Inl e, w2)
              | (Inr user, w2) \<Rightarrow> (Inr (without_password user), w2))))"

definition getUserById :: "string \<Rightarrow> world \<Rightarrow> (User option) result" where
  "getUserById i w =
     (if \<not> isValidUuid i then (Inl (ApiError 400 ''Invalid user ID format''), w)
      else (Inr (map_option without_password (user_findFirst (\<lambda>u. user_id u = i) w)), w))"

definition getUserByEmail :: "string \<Rightarrow> world \<Rightarrow> (User option) result" where
  "getUserByEmail e w =
     (Inr (map_option without_password (user_findFirst (\<lambda>u. user_email u = toLowerCase e) w)), w)"

definition getUserByEmailWithPassword :: "string \<Rightarrow> world \<Rightarrow> (User option) result" where
  "getUserByEmailWithPassword e w =
     (Inr (user_findFirst (\<lambda>u. user_email u = toLowerCase e) w), w)"

definition given :: "string option \<Rightarrow> bool" where
  "given x = (case x of None \<Rightarrow> False | Some s \<Rightarrow> s \<noteq> [])"

definition updateUserById :: "(string \<Rightarrow> string) \<Rightarrow> string \<Rightarrow> UpdateUserData \<Rightarrow> world \<Rightarrow> User result" where
  "updateUserById hash userId updateBody w =
     (if \<not> isValidUuid userId then (Inl (ApiError 400 ''Invalid user ID format''), w)
      else
        (case getUserById userId w of
           (Inl e, w1) \<Rightarrow> (Inl e, w1)
         | (Inr None, w1) \<Rightarrow> (Inl (ApiError 404 ''User not found''), w1)
         | (Inr (Some user), w1) \<Rightarrow>
             if given (update_email updateBody) \<and> \<not> isValidEmail (the (update_email updateBody))
             then (Inl (ApiError 400 ''Invalid email format''), w1)
             else
               (case (if given (update_email updateBody)
                      then isEmailTaken (the (update_email updateBody)) (Some userId) w1
                      else (Inr False, w1)) of
                  (Inl e, w2) \<Rightarrow> (Inl e, w2)
                | (Inr True, w2) \<Rightarrow> (Inl (ApiError 400 ''Email already taken''), w2)
                | (Inr False, w2) \<Rightarrow>
                    (let updateData =
                           (if given (update_password updateBody)
                            then updateBody\<lparr>update_password :=
                                             Some (hash (the (update_password updateBody)))\<rparr>
                            else updateBody)
                     in user_update userId updateData w2))))"

definition deleteUserById :: "string \<Rightarrow> world \<Rightarrow> User result" where
  "deleteUserById userId w =
     (if \<not> isValidUuid userId then (Inl (ApiError 400 ''Invalid user ID format''), w)
      else
        (case getUserById userId w of
           (Inl e, w1) \<Rightarrow> (Inl e, w1)
         | (Inr None, w1) \<Rightarrow> (Inl (ApiError 404 ''User not found''), w1)
         | (Inr (Some user), w1) \<Rightarrow> user_delete userId w1))"

definition isPasswordMatch :: "(string \<Rightarrow> string \<Rightarrow> bool) \<Rightarrow> User \<Rightarrow> string \<Rightarrow> world \<Rightarrow> bool result" where
  "isPasswordMatch compare user pw w =
     (case user_password user of
        None \<Rightarrow> (Inl (Error ''Illegal arguments: string, undefined''), w)
      | Some h \<Rightarrow> (Inr (compare pw h), w))"

section \<open>token.service: single-use tokens\<close>

text \<open>
  The inputs of an issuing function from outside: the clock reading for the expiry,
  the clock reading of \<open>generateToken\<close>, and the identifier of the new row.
\<close>

record issue_inputs =
  clock_expires :: int
  clock_iat :: int
  row_id :: string

definition generateResetPasswordToken :: "jwt_config \<Rightarrow> issue_inputs \<Rightarrow> string \<Rightarrow> world \<Rightarrow> jwt_string result" where
  "generateResetPasswordToken cfg inp e w =
     (case getUserByEmail e w of
        (Inl err, w1) \<Rightarrow> (Inl err, w1)
      | (Inr None, w1) \<Rightarrow> (Inl (ApiError 404 ''No users found with this email''), w1)
      | (Inr (Some user), w1) \<Rightarrow>
          (let expires = add_minutes (clock_expires inp) (resetPasswordExpirationMinutes cfg) in
           case generateToken (clock_iat inp) (user_id user) expires RESET_PASSWORD (secret cfg) of
             Inl err \<Rightarrow> (Inl err, w1)
           | Inr resetPasswordToken \<Rightarrow>
               (case saveToken (row_id inp) resetPasswordToken (user_id user) expires RESET_PASSWORD False w1 of
                  (Inl err, w2) \<Rightarrow> (Inl err, w2)
                | (Inr _, w2) \<Rightarrow> (Inr resetPasswordToken, w2))))"

definition generateVerifyEmailToken :: "jwt_config \<Rightarrow> issue_inputs \<Rightarrow> User \<Rightarrow> world \<Rightarrow> jwt_string result" where
  "generateVerifyEmailToken cfg inp user w =
     (let expires = add_minutes (clock_expires inp) (verifyEmailExpirationMinutes cfg) in
      case generateToken (clock_iat inp) (user_id user) expires VERIFY_EMAIL (secret cfg) of
        Inl err \<Rightarrow> (Inl err, w)
      | Inr verifyEmailToken \<Rightarrow>
          (case saveToken (row_id inp) verifyEmailToken (user_id user) expires VERIFY_EMAIL False w of
             (Inl err, w1) \<Rightarrow> (Inl err, w1)
           | (Inr _, w1) \<Rightarrow> (Inr verifyEmailToken, w1)))"

section \<open>auth.service\<close>

text \<open>
  Each of \<open>refreshAuth\<close>, \<open>resetPassword\<close> and \<open>verifyEmail\<close> wraps its body in
  \<open>try\<close>/\<open>catch\<close> and replaces whatever was thrown by one \<open>ApiError\<close> with status 401.
  In \<open>refreshAuth\<close> the promise of \<open>generateAuthTokens\<close> is returned without \<open>await\<close>,
  so its rejection is not caught and reaches the caller as it is.
\<close>

definition loginUserWithEmailAndPassword :: "(string \<Rightarrow> string \<Rightarrow> bool) \<Rightarrow> string \<Rightarrow> string \<Rightarrow> world \<Rightarrow> User result" where
  "loginUserWithEmailAndPassword compare e pw w =
     (case getUserByEmailWithPassword e w of
        (Inl err, w1) \<Rightarrow> (Inl err, w1)
      | (Inr None, w1) \<Rightarrow> (Inl (ApiError 401 ''Incorrect email or password''), w1)
      | (Inr (Some user), w1) \<Rightarrow>
          (case isPasswordMatch compare user pw w1 of
             (Inl err, w2) \<Rightarrow> (Inl err, w2)
           | (Inr False, w2) \<Rightarrow> (Inl (ApiError 401 ''Incorrect email or password''), w2)
           | (Inr True, w2) \<Rightarrow> (Inr (without_password user), w2)))"

definition logout :: "jwt_string \<Rightarrow> world \<Rightarrow> unit result" where
  "logout refreshToken w =
     (case token_findFirst
             (\<lambda>r. token_token r = refreshToken \<and> token_type r = REFRESH \<and>
                  token_blacklisted r = False) w of
        None \<Rightarrow> (Inl (ApiError 404 ''Not found''), w)
      | Some refreshTokenDoc \<Rightarrow>
          (case token_delete (token_id refreshTokenDoc) w of
             (Inl e, w1) \<Rightarrow> (Inl e, w1)
           | (Inr _, w1) \<Rightarrow> (Inr (), w1)))"

definition refreshAuth :: "jwt_config \<Rightarrow> time_zone \<Rightarrow> int \<Rightarrow> auth_inputs \<Rightarrow> jwt_string \<Rightarrow> world \<Rightarrow> AuthTokens result" where
  "refreshAuth cfg tz now inp refreshToken w =
     (case verifyToken cfg now refreshToken REFRESH w of
        (Inl e, w1) \<Rightarrow> (Inl (ApiError 401 ''Please authenticate''), w1)
      | (Inr refreshTokenDoc, w1) \<Rightarrow>
          (case getUserById (token_userId refreshTokenDoc) w1 of
             (Inl e, w2) \<Rightarrow> (Inl (ApiError 401 ''Please authenticate''), w2)
           | (Inr None, w2) \<Rightarrow> (Inl (ApiError 401 ''Please authenticate''), w2)
           | (Inr (Some user), w2) \<Rightarrow>
               (case token_delete (token_id refreshTokenDoc) w2 of
                  (Inl e, w3) \<Rightarrow> (Inl (ApiError 401 ''Please authenticate''), w3)
                | (Inr _, w3) \<Rightarrow> generateAuthTokens cfg tz inp user w3)))"

definition resetPassword :: "jwt_config \<Rightarrow> (string \<Rightarrow> string) \<Rightarrow> int \<Rightarrow> jwt_string \<Rightarrow> string \<Rightarrow> world \<Rightarrow> unit result" where
  "resetPassword cfg hash now resetPasswordToken newPassword w =
     (case verifyToken cfg now resetPasswordToken RESET_PASSWORD w of
        (Inl e, w1) \<Rightarrow> (Inl (ApiError 401 ''Password reset failed''), w1)
      | (Inr resetPasswordTokenDoc, w1) \<Rightarrow>
          (case getUserById (token_userId resetPasswordTokenDoc) w1 of
             (Inl e, w2) \<Rightarrow> (Inl (ApiError 401 ''Password reset failed''), w2)
           | (Inr None, w2) \<Rightarrow> (Inl (ApiError 401 ''Password reset failed''), w2)
           | (Inr (Some user), w2) \<Rightarrow>
               (case updateUserById hash (user_id user)
                       \<lparr>update_name = None, update_email = None,
                        update_password = Some newPassword, update_role = None,
                        update_isEmailVerified = None\<rparr> w2 of
                  (Inl e, w3) \<Rightarrow> (Inl (ApiError 401 ''Password reset failed''), w3)
                | (Inr _, w3) \<Rightarrow>
                    (case token_deleteMany
                            (\<lambda>r. token_userId r = user_id user \<and> token_type r = RESET_PASSWORD) w3 of
                       (Inl e, w4) \<Rightarrow> (Inl (ApiError 401 ''Password reset failed''), w4)
                     | (Inr _, w4) \<Rightarrow> (Inr (), w4)))))"

definition verifyEmail :: "jwt_config \<Rightarrow> (string \<Rightarrow> string) \<Rightarrow> int \<Rightarrow> jwt_string \<Rightarrow> world \<Rightarrow> unit result" where
  "verifyEmail cfg hash now verifyEmailToken w =
     (case verifyToken cfg now verifyEmailToken VERIFY_EMAIL w of
        (Inl e, w1) \<Rightarrow> (Inl (ApiError 401 ''Email verification failed''), w1)
      | (Inr verifyEmailTokenDoc, w1) \<Rightarrow>
          (case getUserById (token_userId verifyEmailTokenDoc) w1 of
             (Inl e, w2) \<Rightarrow> (Inl (ApiError 401 ''Email verification failed''), w2)
           | (Inr None, w2) \<Rightarrow> (Inl (ApiError 401 ''Email verification failed''), w2)
           | (Inr (Some user), w2) \<Rightarrow>
               (case token_deleteMany
                       (\<lambda>r. token_userId r = user_id user \<and> token_type r = VERIFY_EMAIL) w2 of
                  (Inl e, w3) \<Rightarrow> (Inl (ApiError 401 ''Email verification failed''), w3)
                | (Inr _, w3) \<Rightarrow>
                    (case updateUserById hash (user_id user)
                            \<lparr>update_name = None, update_email = None,
                             update_password = None, update_role = None,
                             update_isEmailVerified = Some True\<rparr> w3 of
                       (Inl e, w4) \<Rightarrow> (Inl (ApiError 401 ''Email verification failed''), w4)
                     | (Inr _, w4) \<Rightarrow> (Inr (), w4)))))"

section \<open>config/roles and config/passport\<close>

datatype Permission = getUsers | manageUsers

text \<open>\<open>roleRights\<close> is a \<open>Map\<close> from the role names to their rights.\<close>

definition roleRights :: "Role \<Rightarrow> Permission list option" where
  "roleRights = [USER \<mapsto> [], ADMIN \<mapsto> [getUsers, manageUsers]]"

text \<open>
  \<open>jwtVerify\<close> receives the decoded claims and reports through \<open>done(err, user)\<close>; the
  pair returned here is that call's two arguments, with \<open>None\<close> for \<open>null\<close> and for
  \<open>false\<close>.
\<close>

definition jwtVerify :: "TokenPayload \<Rightarrow> world \<Rightarrow> error option \<times> User option" where
  "jwtVerify payload w =
     (if payload_type payload \<noteq> ACCESS then (Some (Error ''Invalid token type''), None)
      else
        (case getUserById (payload_sub payload) w of
           (Inl e, _) \<Rightarrow> (Some e, None)
         | (Inr None, _) \<Rightarrow> (None, None)
         | (Inr (Some user), _) \<Rightarrow> (None, Some user)))"

text \<open>
  The \<open>passport-jwt\<close> strategy built from \<open>jwtOptions\<close> and \<open>jwtVerify\<close>, as
  \<open>passport.authenticate\<close> runs it with a custom callback: it takes the bearer token of
  the \<open>Authorization\<close> header, verifies it with \<open>jsonwebtoken\<close> under the configured
  secret, hands the claims to \<open>jwtVerify\<close>, and calls the callback with
  \<open>(err, user, info)\<close>. A missing or rejected token is reported in \<open>info\<close>, an error of
  \<open>jwtVerify\<close> in \<open>err\<close>. (The strategy cannot be constructed with an empty secret;
  the model then reports the error of the codec.)
\<close>

record request =
  bearer :: "jwt_string option"
  params_userId :: "string option"

definition passport_authenticate :: "jwt_config \<Rightarrow> int \<Rightarrow> request \<Rightarrow> world \<Rightarrow> error option \<times> User option \<times> error option" where
  "passport_authenticate cfg now req w =
     (case bearer req of
        None \<Rightarrow> (None, None, Some (Error ''No auth token''))
      | Some t \<Rightarrow>
          (case jwt_verify now t (secret cfg) of
             Inl e \<Rightarrow> (None, None, Some e)
           | Inr payload \<Rightarrow>
               (case jwtVerify payload w of
                  (Some e, _) \<Rightarrow> (Some e, None, None)
                | (None, None) \<Rightarrow> (None, None, None)
                | (None, Some user) \<Rightarrow> (None, Some user, None))))"

section \<open>middlewares/auth\<close>

text \<open>
  \<open>verifyCallback\<close> either calls \<open>resolve\<close>, after storing the user in \<open>req.user\<close>
  (\<open>Inr\<close> of that user), or calls \<open>reject\<close> with an \<open>ApiError\<close> (\<open>Inl\<close>).
\<close>

definition verifyCallback :: "request \<Rightarrow> Permission list \<Rightarrow> bool \<Rightarrow> error option \<Rightarrow> User option \<Rightarrow> error option \<Rightarrow> error + User" where
  "verifyCallback req requiredRights allowSelfAccess err user info =
     (if err \<noteq> None \<or> info \<noteq> None \<or> user = None
      then Inl (ApiError 401 ''Please authenticate'')
      else
        (let u = the user in
         if length requiredRights = 0 then Inr u
         else
           (let userRights = (case roleRights (user_role u) of None \<Rightarrow> [] | Some rs \<Rightarrow> rs);
                hasRequiredRights = list_all (\<lambda>requiredRight. requiredRight \<in> set userRights) requiredRights
            in if hasRequiredRights then Inr u
               else if allowSelfAccess \<and> given (params_userId req)
               then
                 (if \<not> isValidUuid (the (params_userId req))
                  then Inl (ApiError 400 ''Invalid user ID format'')
                  else if the (params_userId req) = user_id u then Inr u
                  else Inl (ApiError 403 ''Insufficient permissions''))
               else Inl (ApiError 403 ''Insufficient permissions''))))"

definition auth :: "jwt_config \<Rightarrow> int \<Rightarrow> Permission list \<Rightarrow> request \<Rightarrow> world \<Rightarrow> error + User" where
  "auth cfg now requiredRights req w =
     (case passport_authenticate cfg now req w of
        (err, user, info) \<Rightarrow> verifyCallback req requiredRights False err user info)"

definition authWithSelfAccess :: "jwt_config \<Rightarrow> int \<Rightarrow> Permission list \<Rightarrow> request \<Rightarrow> world \<Rightarrow> error + User" where
  "authWithSelfAccess cfg now requiredRights req w =
     (case passport_authenticate cfg now req w of
        (err, user, info) \<Rightarrow> verifyCallback req requiredRights True err user info)"

section \<open>Reachable databases\<close>

text \<open>
  The rights of a role, as \<open>verifyCallback\<close> reads them from \<open>roleRights\<close>.
\<close>

definition rights_of :: "Role \<Rightarrow> Permission list" where
  "rights_of r = (case roleRights r of None \<Rightarrow> [] | Some rs \<Rightarrow> rs)"

text \<open>
  A row is well typed when the claims inside its token string, if it is a signed token,
  name the type that the row records. The databases that the services can produce from
  an empty token table are given inductively, one rule per service function that writes;
  the time zone, the clock readings and the other inputs of a step are arbitrary.
\<close>

definition tokens_typed :: "world \<Rightarrow> bool" where
  "tokens_typed w =
     list_all (\<lambda>r. case token_token r of
                      Signed p k \<Rightarrow> payload_type p = token_type r
                    | Opaque s \<Rightarrow> True) (tokens w)"

inductive reachable :: "jwt_config \<Rightarrow> world \<Rightarrow> bool" for cfg :: jwt_config where
  no_tokens: "tokens w = [] \<Longrightarrow> reachable cfg w"
| after_createUser: "reachable cfg w \<Longrightarrow> reachable cfg (snd (createUser hash new_id userBody w))"
| after_updateUserById: "reachable cfg w \<Longrightarrow> reachable cfg (snd (updateUserById hash userId updateBody w))"
| after_deleteUserById: "reachable cfg w \<Longrightarrow> reachable cfg (snd (deleteUserById userId w))"
| after_generateAuthTokens: "reachable cfg w \<Longrightarrow> reachable cfg (snd (generateAuthTokens cfg tz inp user w))"
| after_generateResetPasswordToken:
    "reachable cfg w \<Longrightarrow> reachable cfg (snd (generateResetPasswordToken cfg inp1 e w))"
| after_generateVerifyEmailToken:
    "reachable cfg w \<Longrightarrow> reachable cfg (snd (generateVerifyEmailToken cfg inp1 user w))"
| after_logout: "reachable cfg w \<Longrightarrow> reachable cfg (snd (logout t w))"
| after_refreshAuth: "reachable cfg w \<Longrightarrow> reachable cfg (snd (refreshAuth cfg tz now inp t w))"
| after_resetPassword: "reachable cfg w \<Longrightarrow> reachable cfg (snd (resetPassword cfg hash now t pw w))"
| after_verifyEmail: "reachable cfg w \<Longrightarrow> reachable cfg (snd (verifyEmail cfg hash now t w))"

section \<open>Example data\<close>

text \<open>
  A configuration, two users and a few database states on which the functions are run.
  The first state is a registered user; \<open>w_login\<close> is the state after
  \<open>generateAuthTokens\<close>, and the later ones follow from it.
\<close>

definition cfg0 :: jwt_config where
  "cfg0 = \<lparr>secret = ''s3cret'', accessExpirationMinutes = 30, refreshExpirationDays = 30,
            resetPasswordExpirationMinutes = 10, verifyEmailExpirationMinutes = 10\<rparr>"

definition hash0 :: "string \<Rightarrow> string" where
  "hash0 p = ''$2a$08$'' @ p"

definition alice :: User where
  "alice = \<lparr>user_id = ''cjld2cjxh0000qzrmn831i7rn'', user_email = ''alice@example.com'',
             user_password = Some ''$2a$08$old'', user_name = ''Alice'', user_role = USER,
             user_isEmailVerified = False\<rparr>"

definition admin :: User where
  "admin = \<lparr>user_id = ''ckadmin000000000000000001'', user_email = ''admin@example.com'',
             user_password = None, user_name = ''Admin User'', user_role = ADMIN,
             user_isEmailVerified = True\<rparr>"

definition w_alice :: world where
  "w_alice = \<lparr>users = [alice], tokens = []\<rparr>"

definition login_inputs :: auth_inputs where
  "login_inputs = \<lparr>clock_access = 1700000000100, clock_access_iat = 1700000000110,
                    clock_refresh = 1700000000120, clock_refresh_iat = 1700000000130,
                    refresh_row_id = ''ckrefresh0000000000000001''\<rparr>"

definition refresh1 :: jwt_string where
  "refresh1 = Signed \<lparr>payload_sub = ''cjld2cjxh0000qzrmn831i7rn'', payload_iat = 1700000000,
                      payload_exp = 1702592000, payload_type = REFRESH\<rparr> ''s3cret''"

definition access1 :: jwt_string where
  "access1 = Signed \<lparr>payload_sub = ''cjld2cjxh0000qzrmn831i7rn'', payload_iat = 1700000000,
                      payload_exp = 1700001800, payload_type = ACCESS\<rparr> ''s3cret''"

definition refresh_row1 :: Token where
  "refresh_row1 = \<lparr>token_id = ''ckrefresh0000000000000001'', token_token = refresh1,
                    token_type = REFRESH, token_expires = 1702592000120,
                    token_blacklisted = False, token_userId = ''cjld2cjxh0000qzrmn831i7rn''\<rparr>"

definition w_login :: world where
  "w_login = \<lparr>users = [alice], tokens = [refresh_row1]\<rparr>"

text \<open>
  A reset-password token issued with a lifetime of minus one minute, and its row.
\<close>

definition reset_expired :: jwt_string where
  "reset_expired = Signed \<lparr>payload_sub = ''cjld2cjxh0000qzrmn831i7rn'', payload_iat = 1700000000,
                      payload_exp = 1699999940, payload_type = RESET_PASSWORD\<rparr> ''s3cret''"

definition reset_expired_row :: Token where
  "reset_expired_row = \<lparr>token_id = ''ckreset000000000000000001'', token_token = reset_expired,
                    token_type = RESET_PASSWORD, token_expires = 1699999940200,
                    token_blacklisted = False, token_userId = ''cjld2cjxh0000qzrmn831i7rn''\<rparr>"

definition w_expired :: world where
  "w_expired = \<lparr>users = [alice], tokens = [reset_expired_row]\<rparr>"

text \<open>
  A time zone with a clock change: two hours ahead of UTC until 2023-10-29 01:00 UTC, one
  hour from then on; a local time that occurs twice counts as the earlier one.
\<close>

definition berlin_2023 :: time_zone where
  "berlin_2023 =
     \<lparr>offset_at = (\<lambda>t. if t < 1698541200000 then 7200000 else 3600000),
      offset_of_local = (\<lambda>l. if l < 1698548400000 then 7200000 else 3600000)\<rparr>"

text \<open>
  A second login within the second of the first.
\<close>

definition login_again :: auth_inputs where
  "login_again = \<lparr>clock_access = 1700000000700, clock_access_iat = 1700000000710,
                   clock_refresh = 1700000000720, clock_refresh_iat = 1700000000730,
                   refresh_row_id = ''ckrefresh0000000000000004''\<rparr>"









text \<open>
  Two outstanding reset-password tokens and one verify-email token of the same user.
\<close>

definition reset_a :: jwt_string where
  "reset_a = Signed \<lparr>payload_sub = ''cjld2cjxh0000qzrmn831i7rn'', payload_iat = 1700000000,
                     payload_exp = 1700000600, payload_type = RESET_PASSWORD\<rparr> ''s3cret''"

definition reset_b :: jwt_string where
  "reset_b = Signed \<lparr>payload_sub = ''cjld2cjxh0000qzrmn831i7rn'', payload_iat = 1700000100,
                     payload_exp = 1700000700, payload_type = RESET_PASSWORD\<rparr> ''s3cret''"

definition reset_row_a :: Token where
  "reset_row_a = \<lparr>token_id = ''ckreset000000000000000002'', token_token = reset_a,
                   token_type = RESET_PASSWORD, token_expires = 1700000600000,
                   token_blacklisted = False, token_userId = ''cjld2cjxh0000qzrmn831i7rn''\<rparr>"

definition reset_row_b :: Token where
  "reset_row_b = \<lparr>token_id = ''ckreset000000000000000003'', token_token = reset_b,
                   token_type = RESET_PASSWORD, token_expires = 1700000700000,
                   token_blacklisted = False, token_userId = ''cjld2cjxh0000qzrmn831i7rn''\<rparr>"

definition w_one_reset :: world where
  "w_one_reset = \<lparr>users = [alice], tokens = [refresh_row1, reset_row_a]\<rparr>"

definition w_two_resets :: world where
  "w_two_resets = \<lparr>users = [alice], tokens = [refresh_row1, reset_row_a, reset_row_b]\<rparr>"

definition second_issue :: issue_inputs where
  "second_issue = \<lparr>clock_expires = 1700000100000, clock_iat = 1700000100020,
                    row_id = ''ckreset000000000000000003''\<rparr>"

definition verify_a :: jwt_string where
  "verify_a = Signed \<lparr>payload_sub = ''cjld2cjxh0000qzrmn831i7rn'', payload_iat = 1700000000,
                      payload_exp = 1700000600, payload_type = VERIFY_EMAIL\<rparr> ''s3cret''"

definition verify_row_a :: Token where
  "verify_row_a = \<lparr>token_id = ''ckverify00000000000000001'', token_token = verify_a,
                    token_type = VERIFY_EMAIL, token_expires = 1700000600000,
                    token_blacklisted = False, token_userId = ''cjld2cjxh0000qzrmn831i7rn''\<rparr>"

definition w_verify :: world where
  "w_verify = \<lparr>users = [alice], tokens = [refresh_row1, verify_row_a]\<rparr>"

text \<open>
  A registration whose address differs from the first user's only in the case of a letter.
\<close>

definition alice_upper :: CreateUserData where
  "alice_upper = \<lparr>name = ''Alice Two'', email = ''Alice@example.com'', password = ''Secret123!'',
                   role = None, isEmailVerified = None\<rparr>"

definition alice2 :: User where
  "alice2 = \<lparr>user_id = ''ckuser0000000000000000002'', user_email = ''Alice@example.com'',
              user_password = Some ''$2a$08$Secret123!'', user_name = ''Alice Two'',
              user_role = USER, user_isEmailVerified = False\<rparr>"

section \<open>Auxiliary facts\<close>

lemmas ex_defs = cfg0_def alice_def w_alice_def login_inputs_def login_again_def refresh1_def access1_def
  refresh_row1_def w_login_def reset_expired_def reset_expired_row_def w_expired_def


lemmas ex3_defs = hash0_def reset_a_def reset_b_def reset_row_a_def reset_row_b_def
  w_one_reset_def w_two_resets_def verify_a_def verify_row_a_def w_verify_def second_issue_def
  alice_upper_def alice2_def

lemmas run_defs = verifyToken_def jwt_verify_def token_findFirst_def unix_def
  generateAuthTokens_def generateToken_def jwt_sign_def saveToken_def token_create_def
  token_delete_def token_deleteMany_def add_minutes_def add_days_def utc_def Let_def
  getUserById_def user_findFirst_def without_password_def isValidUuid_def isValidCuid_def
  validateUuid_def

lemmas run2_defs = resetPassword_def verifyEmail_def updateUserById_def user_update_def
  apply_update_def isEmailTaken_def given_def generateResetPasswordToken_def
  generateVerifyEmailToken_def getUserByEmail_def getUserByEmailWithPassword_def toLowerCase_def
  lower_char_def createUser_def user_create_def isValidEmail_def emailRegex_test_def trim_def
  is_space_def

subsection \<open>Adding days\<close>

text \<open>
  In UTC a day is 86400000 ms. From noon UTC of the day before the clock change, one
  calendar day later is 25 hours later.
\<close>

lemma add_days_utc: "add_days utc t n = t + n * 86400000"
  by (simp add: add_days_def utc_def)

lemma add_days_clock_change:
  "add_days berlin_2023 1698494400000 1 = 1698494400000 + 86400000 + 3600000"
  by (simp add: add_days_def berlin_2023_def)

subsection \<open>Verification and issuing\<close>

lemma verifyToken_snd: "snd (verifyToken cfg now tok ty w) = w"
  by (simp add: verifyToken_def split: sum.splits option.splits)

lemma verifyToken_world: "verifyToken cfg now tok ty w = (r, w') \<Longrightarrow> w' = w"
  using verifyToken_snd[of cfg now tok ty w] by simp

lemma verifyToken_Inr_iff:
  "verifyToken cfg now tok ty w = (Inr doc, w') \<longleftrightarrow>
     w' = w \<and> (\<exists>p. jwt_verify now tok (secret cfg) = Inr p \<and>
       find (\<lambda>r. token_token r = tok \<and> token_type r = ty \<and>
                  token_userId r = payload_sub p \<and> token_blacklisted r = False) (tokens w) = Some doc)"
  by (auto simp: verifyToken_def token_findFirst_def split: sum.splits option.splits)

lemma jwt_verify_Inr_iff:
  "jwt_verify now tok key = Inr p \<longleftrightarrow>
     tok = Signed p key \<and> key \<noteq> [] \<and> unix now < payload_exp p"
  by (auto simp: jwt_verify_def split: jwt_string.splits if_splits)

lemma verifyToken_doc:
  assumes "verifyToken cfg now tok ty w = (Inr doc, w')"
  shows "w' = w" "doc \<in> set (tokens w)" "token_token doc = tok" "token_type doc = ty"
    "token_blacklisted doc = False"
  using assms
  by (auto simp: verifyToken_Inr_iff find_Some_iff)

lemma find_map_expires:
  assumes "\<And>r. P (f r) = P r"
  shows "find P (map f xs) = map_option f (find P xs)"
  using assms by (induction xs) auto

lemma saveToken_keeps:
  "users (snd (saveToken i t u e ty b w)) = users w \<and>
   (\<exists>new. tokens (snd (saveToken i t u e ty b w)) = tokens w @ new)"
  by (simp add: saveToken_def token_create_def Let_def)

lemma generateAuthTokens_keeps:
  "users (snd (generateAuthTokens cfg tz inp user w)) = users w \<and>
   (\<exists>new. tokens (snd (generateAuthTokens cfg tz inp user w)) = tokens w @ new)"
  by (simp add: generateAuthTokens_def saveToken_def token_create_def Let_def split: sum.splits)

lemma generateResetPasswordToken_keeps:
  "users (snd (generateResetPasswordToken cfg inp e w)) = users w \<and>
   (\<exists>new. tokens (snd (generateResetPasswordToken cfg inp e w)) = tokens w @ new)"
  by (simp add: generateResetPasswordToken_def getUserByEmail_def saveToken_def token_create_def
      Let_def split: sum.splits option.splits)

lemma generateVerifyEmailToken_keeps:
  "users (snd (generateVerifyEmailToken cfg inp user w)) = users w \<and>
   (\<exists>new. tokens (snd (generateVerifyEmailToken cfg inp user w)) = tokens w @ new)"
  by (simp add: generateVerifyEmailToken_def saveToken_def token_create_def Let_def split: sum.splits)


lemma verifyToken_rejects:
  assumes "(\<exists>p k. tok = Signed p k \<and> (payload_exp p \<le> unix now \<or> k \<noteq> secret cfg)) \<or>
           (\<exists>s. tok = Opaque s) \<or>
           list_all (\<lambda>r. token_token r \<noteq> tok \<or> token_blacklisted r) (tokens w)"
  shows "\<exists>e. fst (verifyToken cfg now tok ty w) = Inl e"
proof (cases "jwt_verify now tok (secret cfg)")
  case (Inl e)
  then show ?thesis by (simp add: verifyToken_def)
next
  case (Inr p)
  then have ok: "tok = Signed p (secret cfg)" "unix now < payload_exp p"
    by (auto simp: jwt_verify_Inr_iff)
  with assms have "list_all (\<lambda>r. token_token r \<noteq> tok \<or> token_blacklisted r) (tokens w)"
    by auto
  then have "find (\<lambda>r. token_token r = tok \<and> token_type r = ty \<and>
                  token_userId r = payload_sub p \<and> token_blacklisted r = False) (tokens w) = None"
    by (auto simp: find_None_iff list_all_iff)
  with Inr show ?thesis by (simp add: verifyToken_def token_findFirst_def)
qed

subsection \<open>The user service\<close>

lemma isValidUuid_Nil: "\<not> isValidUuid []"
  by (simp add: isValidUuid_def)

lemma getUserById_Some:
  "getUserById i w = (Inr (Some u), w') \<Longrightarrow> w' = w \<and> user_id u = i \<and> isValidUuid i"
  by (auto simp: getUserById_def user_findFirst_def without_password_def find_Some_iff
      split: if_splits)

lemma getUserById_snd: "snd (getUserById i w) = w"
  by (simp add: getUserById_def)

lemma getUserById_world: "getUserById i w = (r, w') \<Longrightarrow> w' = w"
  using getUserById_snd[of i w] by simp

lemma user_update_tokens: "tokens (snd (user_update i d w)) = tokens w"
  by (simp add: user_update_def split: option.splits)

lemma updateUserById_tokens: "tokens (snd (updateUserById hash i d w)) = tokens w"
  by (auto simp: updateUserById_def getUserById_def isEmailTaken_def Let_def user_update_tokens
      split: prod.splits sum.splits option.splits bool.splits if_splits)

lemma updateUserById_world: "updateUserById hash i d w = (r, w') \<Longrightarrow> tokens w' = tokens w"
  using updateUserById_tokens[of hash i d w] by simp

lemma deleteUserById_tokens:
  "tokens (snd (deleteUserById i w)) = tokens w \<or>
   tokens (snd (deleteUserById i w)) = filter (\<lambda>r. token_userId r \<noteq> i) (tokens w)"
  by (auto simp: deleteUserById_def getUserById_def user_delete_def
      split: option.splits prod.splits sum.splits)

lemma getUserByEmail_snd: "snd (getUserByEmail e w) = w"
  by (simp add: getUserByEmail_def)

lemma getUserByEmailWithPassword_snd: "snd (getUserByEmailWithPassword e w) = w"
  by (simp add: getUserByEmailWithPassword_def)

lemma isEmailTaken_snd: "snd (isEmailTaken e x w) = w"
  by (simp add: isEmailTaken_def Let_def)

lemma isPasswordMatch_snd: "snd (isPasswordMatch compare user pw w) = w"
  by (simp add: isPasswordMatch_def split: option.splits)

lemma loginUserWithEmailAndPassword_snd:
  "snd (loginUserWithEmailAndPassword compare e pw w) = w"
  by (auto simp: loginUserWithEmailAndPassword_def getUserByEmailWithPassword_def
      isPasswordMatch_def split: option.splits prod.splits sum.splits bool.splits)

lemma createUser_tokens: "tokens (snd (createUser hash i b w)) = tokens w"
  by (auto simp: createUser_def isEmailTaken_def user_create_def Let_def
      split: prod.splits sum.splits option.splits bool.splits if_splits)

subsection \<open>Consuming a token\<close>

lemma token_delete_present:
  "doc \<in> set (tokens w) \<Longrightarrow>
   \<exists>d. token_delete (token_id doc) w =
     (Inr d, w\<lparr>tokens := filter (\<lambda>r. token_id r \<noteq> token_id doc) (tokens w)\<rparr>)"
  by (cases "find (\<lambda>r. token_id r = token_id doc) (tokens w)")
     (auto simp: token_delete_def find_None_iff)

lemma token_delete_world:
  "token_delete i w = (r, w') \<Longrightarrow> set (tokens w') \<subseteq> set (tokens w)"
  by (auto simp: token_delete_def split: option.splits)

lemma token_deleteMany_world:
  "token_deleteMany P w = (r, w') \<Longrightarrow> set (tokens w') \<subseteq> set (tokens w)"
  by (auto simp: token_deleteMany_def)

lemma resetPassword_rejected:
  "fst (verifyToken cfg now tok RESET_PASSWORD w) = Inl e \<Longrightarrow>
   resetPassword cfg hash now tok newPassword w = (Inl (ApiError 401 ''Password reset failed''), w)"
  by (auto simp: resetPassword_def verifyToken_def split: sum.splits option.splits prod.splits)

lemma resetPassword_success:
  assumes "resetPassword cfg hash now tok pw w = (Inr (), w')"
  shows "\<exists>doc. verifyToken cfg now tok RESET_PASSWORD w = (Inr doc, w) \<and>
           tokens w' = filter (\<lambda>r. \<not> (token_userId r = token_userId doc \<and> token_type r = RESET_PASSWORD)) (tokens w)"
proof -
  from assms obtain doc w1 where v: "verifyToken cfg now tok RESET_PASSWORD w = (Inr doc, w1)"
    by (auto simp: resetPassword_def split: prod.splits sum.splits)
  with verifyToken_snd[of cfg now tok RESET_PASSWORD w] have w1: "w1 = w" by simp
  from assms v w1 obtain u w2 where g: "getUserById (token_userId doc) w = (Inr (Some u), w2)"
    by (auto simp: resetPassword_def split: prod.splits sum.splits option.splits)
  from getUserById_Some[OF g] have w2: "w2 = w" and uid: "user_id u = token_userId doc" by auto
  let ?d = "\<lparr>update_name = None, update_email = None, update_password = Some pw,
             update_role = None, update_isEmailVerified = None\<rparr>"
  from assms v w1 g w2 obtain x w3 where up: "updateUserById hash (user_id u) ?d w = (Inr x, w3)"
    by (auto simp: resetPassword_def split: prod.splits sum.splits option.splits)
  from updateUserById_tokens[of hash "user_id u" ?d w] up have t3: "tokens w3 = tokens w" by simp
  from assms v w1 g w2 up have
    "w' = snd (token_deleteMany (\<lambda>r. token_userId r = user_id u \<and> token_type r = RESET_PASSWORD) w3)"
    by (auto simp: resetPassword_def split: prod.splits sum.splits option.splits)
  with t3 uid have "tokens w' = filter (\<lambda>r. \<not> (token_userId r = token_userId doc \<and> token_type r = RESET_PASSWORD)) (tokens w)"
    by (simp add: token_deleteMany_def)
  with v w1 show ?thesis by simp
qed

lemma verifyEmail_success:
  assumes "verifyEmail cfg hash now tok w = (Inr (), w')"
  shows "\<exists>doc. verifyToken cfg now tok VERIFY_EMAIL w = (Inr doc, w) \<and>
           tokens w' = filter (\<lambda>r. \<not> (token_userId r = token_userId doc \<and> token_type r = VERIFY_EMAIL)) (tokens w)"
proof -
  from assms obtain doc w1 where v: "verifyToken cfg now tok VERIFY_EMAIL w = (Inr doc, w1)"
    by (auto simp: verifyEmail_def split: prod.splits sum.splits)
  with verifyToken_snd[of cfg now tok VERIFY_EMAIL w] have w1: "w1 = w" by simp
  from assms v w1 obtain u w2 where g: "getUserById (token_userId doc) w = (Inr (Some u), w2)"
    by (auto simp: verifyEmail_def split: prod.splits sum.splits option.splits)
  from getUserById_Some[OF g] have w2: "w2 = w" and uid: "user_id u = token_userId doc" by auto
  let ?d = "\<lparr>update_name = None, update_email = None, update_password = None,
             update_role = None, update_isEmailVerified = Some True\<rparr>"
  let ?w3 = "snd (token_deleteMany (\<lambda>r. token_userId r = user_id u \<and> token_type r = VERIFY_EMAIL) w)"
  from assms v w1 g w2 have "w' = snd (updateUserById hash (user_id u) ?d ?w3)"
    by (auto simp: verifyEmail_def token_deleteMany_def split: prod.splits sum.splits option.splits)
  with updateUserById_tokens[of hash "user_id u" ?d ?w3] uid
  have "tokens w' = filter (\<lambda>r. \<not> (token_userId r = token_userId doc \<and> token_type r = VERIFY_EMAIL)) (tokens w)"
    by (simp add: token_deleteMany_def)
  with v w1 show ?thesis by simp
qed


lemma refreshAuth_delete_then_issue:
  assumes v: "verifyToken cfg now tok REFRESH w = (Inr doc, w)"
    and g: "getUserById (token_userId doc) w = (Inr (Some u), w)"
  shows "refreshAuth cfg tz now inp tok w =
     generateAuthTokens cfg tz inp u (w\<lparr>tokens := filter (\<lambda>r. token_id r \<noteq> token_id doc) (tokens w)\<rparr>)"
proof -
  from verifyToken_doc(2)[OF v] token_delete_present obtain d where
    "token_delete (token_id doc) w =
       (Inr d, w\<lparr>tokens := filter (\<lambda>r. token_id r \<noteq> token_id doc) (tokens w)\<rparr>)"
    by blast
  with v g show ?thesis by (simp add: refreshAuth_def)
qed




subsection \<open>Well-typed rows\<close>

lemma tokens_typed_subset:
  "set (tokens w') \<subseteq> set (tokens w) \<Longrightarrow> tokens_typed w \<Longrightarrow> tokens_typed w'"
  by (auto simp: tokens_typed_def list_all_iff)

lemma logout_subset: "set (tokens (snd (logout t w))) \<subseteq> set (tokens w)"
  by (auto simp: logout_def split: option.splits prod.splits sum.splits dest: token_delete_world)

lemma resetPassword_subset:
  "set (tokens (snd (resetPassword cfg hash now t pw w))) \<subseteq> set (tokens w)"
  by (auto simp: resetPassword_def split: option.splits prod.splits sum.splits
      dest!: verifyToken_world getUserById_world updateUserById_world token_deleteMany_world)

lemma verifyEmail_subset:
  "set (tokens (snd (verifyEmail cfg hash now t w))) \<subseteq> set (tokens w)"
  by (auto simp: verifyEmail_def split: option.splits prod.splits sum.splits
      dest!: verifyToken_world getUserById_world updateUserById_world token_deleteMany_world)

lemma deleteUserById_subset: "set (tokens (snd (deleteUserById i w))) \<subseteq> set (tokens w)"
  using deleteUserById_tokens[of i w] by auto

lemma generateAuthTokens_typed:
  "tokens_typed w \<Longrightarrow> tokens_typed (snd (generateAuthTokens cfg tz inp user w))"
  by (auto simp: generateAuthTokens_def generateToken_def jwt_sign_def saveToken_def
      token_create_def Let_def tokens_typed_def)

lemma generateResetPasswordToken_typed:
  "tokens_typed w \<Longrightarrow> tokens_typed (snd (generateResetPasswordToken cfg inp e w))"
  by (auto simp: generateResetPasswordToken_def getUserByEmail_def generateToken_def jwt_sign_def
      saveToken_def token_create_def Let_def tokens_typed_def split: option.splits)

lemma generateVerifyEmailToken_typed:
  "tokens_typed w \<Longrightarrow> tokens_typed (snd (generateVerifyEmailToken cfg inp user w))"
  by (auto simp: generateVerifyEmailToken_def generateToken_def jwt_sign_def
      saveToken_def token_create_def Let_def tokens_typed_def)

lemma refreshAuth_cases:
  "snd (refreshAuth cfg tz now inp t w) = w \<or>
   (\<exists>(doc :: Token) u. snd (refreshAuth cfg tz now inp t w) =
      snd (generateAuthTokens cfg tz inp u
            (w\<lparr>tokens := filter (\<lambda>r. token_id r \<noteq> token_id doc) (tokens w)\<rparr>)))"
proof (cases "\<exists>doc u. verifyToken cfg now t REFRESH w = (Inr doc, w) \<and>
                 getUserById (token_userId doc) w = (Inr (Some u), w)")
  case True
  then obtain doc u where
    "verifyToken cfg now t REFRESH w = (Inr doc, w)"
    "getUserById (token_userId doc) w = (Inr (Some u), w)" by blast
  then have "refreshAuth cfg tz now inp t w =
     generateAuthTokens cfg tz inp u (w\<lparr>tokens := filter (\<lambda>r. token_id r \<noteq> token_id doc) (tokens w)\<rparr>)"
    by (rule refreshAuth_delete_then_issue)
  then show ?thesis by auto
next
  case False
  then have "snd (refreshAuth cfg tz now inp t w) = w"
    by (auto simp: refreshAuth_def split: option.splits prod.splits sum.splits
        dest: verifyToken_world getUserById_world)
  then show ?thesis by simp
qed

lemma refreshAuth_typed:
  assumes "tokens_typed w"
  shows "tokens_typed (snd (refreshAuth cfg tz now inp t w))"
proof -
  have "tokens_typed (w\<lparr>tokens := filter P (tokens w)\<rparr>)" for P
    using assms by (auto simp: tokens_typed_def list_all_iff)
  with refreshAuth_cases[of cfg tz now inp t w] assms show ?thesis
    by (auto simp: generateAuthTokens_typed)
qed

lemma reachable_typed: "reachable cfg w \<Longrightarrow> tokens_typed w"
proof (induction rule: reachable.induct)
  case (no_tokens w)
  then show ?case by (simp add: tokens_typed_def)
next
  case (after_createUser w hash new_id userBody)
  then show ?case using createUser_tokens[of hash new_id userBody w] by (simp add: tokens_typed_def)
next
  case (after_updateUserById w hash userId updateBody)
  then show ?case using updateUserById_tokens[of hash userId updateBody w] by (simp add: tokens_typed_def)
next
  case (after_deleteUserById w userId)
  then show ?case using deleteUserById_subset tokens_typed_subset by blast
next
  case (after_generateAuthTokens w tz inp user)
  then show ?case by (simp add: generateAuthTokens_typed)
next
  case (after_generateResetPasswordToken w inp1 e)
  then show ?case by (simp add: generateResetPasswordToken_typed)
next
  case (after_generateVerifyEmailToken w inp1 user)
  then show ?case by (simp add: generateVerifyEmailToken_typed)
next
  case (after_logout w t)
  then show ?case using logout_subset tokens_typed_subset by blast
next
  case (after_refreshAuth w tz now inp t)
  then show ?case by (simp add: refreshAuth_typed)
next
  case (after_resetPassword w hash now t pw)
  then show ?case using resetPassword_subset tokens_typed_subset by blast
next
  case (after_verifyEmail w hash now t)
  then show ?case using verifyEmail_subset tokens_typed_subset by blast
qed

lemma typed_no_match:
  assumes "tokens_typed w" and "payload_type p \<noteq> ty"
  shows "find (\<lambda>r. token_token r = Signed p k \<and> token_type r = ty \<and>
                  token_userId r = s \<and> \<not> token_blacklisted r) (tokens w) = None"
  using assms by (auto simp: tokens_typed_def list_all_iff find_None_iff)

subsection \<open>No two rows hold the same token string\<close>












section \<open>The claims\<close>

subsection \<open>C1: issuing the access and refresh pair\<close>




subsection \<open>C2: refresh rotation\<close>




subsection \<open>C3: the authorization decision\<close>

text \<open>
  C3, as the code has it. For an authenticated user (\<open>err\<close> and \<open>info\<close> null):
  no required right, or all required rights among the rights of the user's role, resolves.
  Otherwise, when self-access is enabled and a non-empty \<open>userId\<close> parameter is
  present, the parameter is checked first: not a valid identifier rejects with 400
  \<open>Invalid user ID format\<close>, equal to the user's id resolves, different rejects with 403.
  In every remaining case the request is rejected with 403 \<open>Insufficient permissions\<close>.
  \<open>ADMIN\<close> has \<open>manageUsers\<close> and \<open>USER\<close> has no right, so an admin requiring
  \<open>manageUsers\<close> resolves and a user does exactly when self-access matches.
\<close>

theorem verifyCallback_decision:
  "(requiredRights = [] \<longrightarrow>
      verifyCallback req requiredRights allowSelfAccess None (Some u) None = Inr u) \<and>
   (set requiredRights \<subseteq> set (rights_of (user_role u)) \<longrightarrow>
      verifyCallback req requiredRights allowSelfAccess None (Some u) None = Inr u) \<and>
   (requiredRights \<noteq> [] \<and> \<not> set requiredRights \<subseteq> set (rights_of (user_role u)) \<longrightarrow>
      verifyCallback req requiredRights allowSelfAccess None (Some u) None =
        (if allowSelfAccess \<and> given (params_userId req)
         then (if \<not> isValidUuid (the (params_userId req))
               then Inl (ApiError 400 ''Invalid user ID format'')
               else if params_userId req = Some (user_id u) then Inr u
               else Inl (ApiError 403 ''Insufficient permissions''))
         else Inl (ApiError 403 ''Insufficient permissions''))) \<and>
   manageUsers \<in> set (rights_of ADMIN) \<and> rights_of USER = [] \<and>
   (user_role u = ADMIN \<longrightarrow>
      verifyCallback req [manageUsers] allowSelfAccess None (Some u) None = Inr u) \<and>
   (user_role u = USER \<longrightarrow>
      (verifyCallback req [manageUsers] allowSelfAccess None (Some u) None = Inr u) =
      (allowSelfAccess \<and> params_userId req = Some (user_id u) \<and> isValidUuid (user_id u)))"
  by (auto simp: verifyCallback_def rights_of_def roleRights_def Let_def list_all_iff given_def
      isValidUuid_Nil split: option.splits)

text \<open>
  C3 as stated fails for a user without the required right who calls a self-access route
  with a malformed \<open>userId\<close>: the denial is 400, not 403.
\<close>

theorem verifyCallback_decision_counterexample:
  "\<not> set [manageUsers] \<subseteq> set (rights_of (user_role alice)) \<and>
   Some ''abc'' \<noteq> Some (user_id alice) \<and>
   verifyCallback \<lparr>bearer = Some access1, params_userId = Some ''abc''\<rparr> [manageUsers] True
     None (Some alice) None = Inl (ApiError 400 ''Invalid user ID format'') \<and>
   ApiError 400 ''Invalid user ID format'' \<noteq> ApiError 403 ''Insufficient permissions''"
  by (simp add: verifyCallback_def rights_of_def roleRights_def Let_def given_def alice_def
      isValidUuid_def isValidCuid_def validateUuid_def)

text \<open>
  Runs of the amended C3: no required right, an admin, and a user with and without
  matching self-access.
\<close>

theorem verifyCallback_decision_witness:
  "verifyCallback \<lparr>bearer = Some access1, params_userId = None\<rparr> [] False None (Some alice) None = Inr alice \<and>
   set [getUsers, manageUsers] \<subseteq> set (rights_of (user_role admin)) \<and>
   verifyCallback \<lparr>bearer = None, params_userId = None\<rparr> [getUsers, manageUsers] False None (Some admin) None = Inr admin \<and>
   verifyCallback \<lparr>bearer = None, params_userId = None\<rparr> [manageUsers] False None (Some admin) None = Inr admin \<and>
   user_role alice = USER \<and> [manageUsers] \<noteq> [] \<and> \<not> set [manageUsers] \<subseteq> set (rights_of (user_role alice)) \<and>
   verifyCallback \<lparr>bearer = None, params_userId = Some (user_id alice)\<rparr> [manageUsers] True None (Some alice) None = Inr alice \<and>
   verifyCallback \<lparr>bearer = None, params_userId = Some (user_id alice)\<rparr> [manageUsers] False None (Some alice) None
      = Inl (ApiError 403 ''Insufficient permissions'') \<and>
   verifyCallback \<lparr>bearer = None, params_userId = Some (user_id admin)\<rparr> [manageUsers] True None (Some alice) None
      = Inl (ApiError 403 ''Insufficient permissions'')"
  using verifyCallback_decision[where requiredRights = "[]" and u = alice and allowSelfAccess = False
      and req = "\<lparr>bearer = Some access1, params_userId = None\<rparr>"]
    verifyCallback_decision[where requiredRights = "[getUsers, manageUsers]" and u = admin
      and allowSelfAccess = False and req = "\<lparr>bearer = None, params_userId = None\<rparr>"]
    verifyCallback_decision[where requiredRights = "[manageUsers]" and u = alice
      and allowSelfAccess = True and req = "\<lparr>bearer = None, params_userId = Some (user_id alice)\<rparr>"]
    verifyCallback_decision[where requiredRights = "[manageUsers]" and u = alice
      and allowSelfAccess = False and req = "\<lparr>bearer = None, params_userId = Some (user_id alice)\<rparr>"]
    verifyCallback_decision[where requiredRights = "[manageUsers]" and u = alice
      and allowSelfAccess = True and req = "\<lparr>bearer = None, params_userId = Some (user_id admin)\<rparr>"]
  by (simp add: verifyCallback_def rights_of_def roleRights_def Let_def given_def alice_def admin_def
      isValidUuid_def isValidCuid_def validateUuid_def)

subsection \<open>C4: no type confusion\<close>

text \<open>
  C4. In every database that the services can produce, a signed token whose claims carry
  one type never verifies as another type: \<open>verifyToken\<close> rejects, with
  \<open>Token not found\<close> whenever the codec accepts the token and with the codec's own error
  otherwise. In particular an access token is rejected wherever a refresh, reset-password
  or verify-email token is expected. A bearer token whose claims do not have type
  \<open>ACCESS\<close> is rejected by both authentication middlewares with 401
  \<open>Please authenticate\<close>.
\<close>

theorem no_type_confusion:
  "(reachable cfg w \<and> payload_type p \<noteq> ty \<longrightarrow>
      verifyToken cfg now (Signed p k) ty w =
        (case jwt_verify now (Signed p k) (secret cfg) of
           Inl e \<Rightarrow> (Inl e, w)
         | Inr claims \<Rightarrow> (Inl (Error ''Token not found''), w))) \<and>
   (payload_type p \<noteq> ACCESS \<and> bearer req = Some (Signed p k) \<longrightarrow>
      auth cfg now requiredRights req w = Inl (ApiError 401 ''Please authenticate'') \<and>
      authWithSelfAccess cfg now requiredRights req w = Inl (ApiError 401 ''Please authenticate''))"
proof (intro conjI impI)
  assume a: "reachable cfg w \<and> payload_type p \<noteq> ty"
  then have "tokens_typed w" using reachable_typed by blast
  with a show "verifyToken cfg now (Signed p k) ty w =
        (case jwt_verify now (Signed p k) (secret cfg) of
           Inl e \<Rightarrow> (Inl e, w)
         | Inr claims \<Rightarrow> (Inl (Error ''Token not found''), w))"
    by (simp add: verifyToken_def token_findFirst_def typed_no_match split: sum.splits)
next
  assume a: "payload_type p \<noteq> ACCESS \<and> bearer req = Some (Signed p k)"
  then show "auth cfg now requiredRights req w = Inl (ApiError 401 ''Please authenticate'')"
    by (auto simp: auth_def passport_authenticate_def jwtVerify_def verifyCallback_def
        jwt_verify_Inr_iff split: sum.splits prod.splits option.splits)
  from a show "authWithSelfAccess cfg now requiredRights req w = Inl (ApiError 401 ''Please authenticate'')"
    by (auto simp: authWithSelfAccess_def passport_authenticate_def jwtVerify_def verifyCallback_def
        jwt_verify_Inr_iff split: sum.splits prod.splits option.splits)
qed

text \<open>
  Runs of C4 on the database after a login: the access token presented as a refresh and
  as a reset-password token, and the refresh token presented as a bearer credential.
\<close>

theorem no_type_confusion_witness:
  "reachable cfg0 w_login \<and> ACCESS \<noteq> REFRESH \<and>
   verifyToken cfg0 1700000000500 access1 REFRESH w_login = (Inl (Error ''Token not found''), w_login) \<and>
   verifyToken cfg0 1700000000500 access1 RESET_PASSWORD w_login = (Inl (Error ''Token not found''), w_login) \<and>
   verifyToken cfg0 1700000000500 refresh1 REFRESH w_login = (Inr refresh_row1, w_login) \<and>
   auth cfg0 1700000000500 [] \<lparr>bearer = Some access1, params_userId = None\<rparr> w_login =
     Inr (without_password alice) \<and>
   REFRESH \<noteq> ACCESS \<and>
   auth cfg0 1700000000500 [] \<lparr>bearer = Some refresh1, params_userId = None\<rparr> w_login =
     Inl (ApiError 401 ''Please authenticate'')"
proof -
  have "reachable cfg0 (snd (generateAuthTokens cfg0 utc login_inputs alice w_alice))"
    by (rule reachable.after_generateAuthTokens, rule reachable.no_tokens) (simp add: w_alice_def)
  moreover have "snd (generateAuthTokens cfg0 utc login_inputs alice w_alice) = w_login"
    by (simp add: ex_defs run_defs)
  ultimately have r: "reachable cfg0 w_login" by simp
  have v: "verifyToken cfg0 1700000000500 refresh1 REFRESH w_login = (Inr refresh_row1, w_login)"
    by (simp add: ex_defs run_defs)
  have a: "auth cfg0 1700000000500 [] \<lparr>bearer = Some access1, params_userId = None\<rparr> w_login =
     Inr (without_password alice)"
    by (simp add: ex_defs run_defs auth_def passport_authenticate_def jwtVerify_def verifyCallback_def)
  from r v a
    no_type_confusion[of cfg0 w_login
      "\<lparr>payload_sub = ''cjld2cjxh0000qzrmn831i7rn'', payload_iat = 1700000000,
        payload_exp = 1700001800, payload_type = ACCESS\<rparr>" REFRESH 1700000000500 "''s3cret''"]
    no_type_confusion[of cfg0 w_login
      "\<lparr>payload_sub = ''cjld2cjxh0000qzrmn831i7rn'', payload_iat = 1700000000,
        payload_exp = 1700001800, payload_type = ACCESS\<rparr>" RESET_PASSWORD 1700000000500 "''s3cret''"]
    no_type_confusion[of cfg0 w_login
      "\<lparr>payload_sub = ''cjld2cjxh0000qzrmn831i7rn'', payload_iat = 1700000000,
        payload_exp = 1702592000, payload_type = REFRESH\<rparr>" ACCESS 1700000000500 "''s3cret''"
      "\<lparr>bearer = Some refresh1, params_userId = None\<rparr>" "[]"]
  show ?thesis
    by (simp add: access1_def refresh1_def cfg0_def jwt_verify_def unix_def)
qed

subsection \<open>C5: expired tokens\<close>

text \<open>
  C5. A token whose \<open>exp\<close> is earlier than the verifier's clock (in seconds) never
  verifies, whatever the token table holds: \<open>verifyToken\<close> rejects and returns no row.
\<close>

theorem verifyToken_expired_fails:
  "payload_exp p < unix now \<Longrightarrow>
   verifyToken cfg now (Signed p k) ty w =
     (Inl (if secret cfg = [] then JsonWebTokenError ''secret or public key must be provided''
           else if k \<noteq> secret cfg then JsonWebTokenError ''invalid signature''
           else TokenExpiredError ''jwt expired''), w)"
  by (simp add: verifyToken_def jwt_verify_def)

text \<open>
  The run of C5 on a token that expired a minute before it was issued, with its row
  still stored and not blacklisted.
\<close>

theorem verifyToken_expired_fails_witness:
  "1699999940 < unix 1700000000500 \<and> reset_expired_row \<in> set (tokens w_expired) \<and>
   token_token reset_expired_row = reset_expired \<and> \<not> token_blacklisted reset_expired_row \<and>
   verifyToken cfg0 1700000000500 reset_expired RESET_PASSWORD w_expired =
     (Inl (TokenExpiredError ''jwt expired''), w_expired)"
  using verifyToken_expired_fails[of "\<lparr>payload_sub = ''cjld2cjxh0000qzrmn831i7rn'',
      payload_iat = 1700000000, payload_exp = 1699999940, payload_type = RESET_PASSWORD\<rparr>"
      1700000000500 cfg0 "''s3cret''" RESET_PASSWORD w_expired]
  by (simp add: ex_defs unix_def)

subsection \<open>C6: verification does not write\<close>

text \<open>
  C6, as the code has it. \<open>verifyToken\<close> leaves both tables as they are, whether it
  resolves or rejects, and so do the lookups of the user service and the login. Creating
  and updating a user leave the token table alone, and the issuing functions of the
  token service leave the users alone and only append to the token table. Token rows are
  removed by \<open>logout\<close>, \<open>refreshAuth\<close>, \<open>resetPassword\<close> and \<open>verifyEmail\<close>, and
  by one more function: \<open>deleteUserById\<close>, which through the cascade of the foreign key
  removes every token row of the deleted user and no other.
\<close>

theorem verification_never_mutates:
  "snd (verifyToken cfg now tok ty w) = w \<and>
   (deleteUserById i w = (Inr deleted, w') \<longrightarrow>
      tokens w' = filter (\<lambda>r. token_userId r \<noteq> i) (tokens w)) \<and>
   snd (getUserById i w) = w \<and>
   snd (getUserByEmail em w) = w \<and>
   snd (getUserByEmailWithPassword em w) = w \<and>
   snd (isEmailTaken em excl w) = w \<and>
   snd (loginUserWithEmailAndPassword compare em pw w) = w \<and>
   tokens (snd (createUser hash new_id userBody w)) = tokens w \<and>
   tokens (snd (updateUserById hash i updateBody w)) = tokens w \<and>
   users (snd (saveToken i t u e ty' b w)) = users w \<and>
   (\<exists>new. tokens (snd (saveToken i t u e ty' b w)) = tokens w @ new) \<and>
   users (snd (generateAuthTokens cfg tz inp user w)) = users w \<and>
   (\<exists>new. tokens (snd (generateAuthTokens cfg tz inp user w)) = tokens w @ new) \<and>
   users (snd (generateResetPasswordToken cfg inp1 em w)) = users w \<and>
   (\<exists>new. tokens (snd (generateResetPasswordToken cfg inp1 em w)) = tokens w @ new) \<and>
   users (snd (generateVerifyEmailToken cfg inp1 user w)) = users w \<and>
   (\<exists>new. tokens (snd (generateVerifyEmailToken cfg inp1 user w)) = tokens w @ new) \<and>
   snd (isPasswordMatch compare user pw w) = w"
proof -
  have "deleteUserById i w = (Inr deleted, w') \<longrightarrow>
      tokens w' = filter (\<lambda>r. token_userId r \<noteq> i) (tokens w)"
    by (auto simp: deleteUserById_def getUserById_def user_delete_def
        split: option.splits prod.splits sum.splits if_splits)
  then show ?thesis
    by (simp add: verifyToken_snd getUserById_snd getUserByEmail_snd
        getUserByEmailWithPassword_snd isEmailTaken_snd loginUserWithEmailAndPassword_snd
        createUser_tokens updateUserById_tokens saveToken_keeps generateAuthTokens_keeps
        generateResetPasswordToken_keeps generateVerifyEmailToken_keeps isPasswordMatch_snd)
qed

text \<open>
  C6 as stated fails for \<open>deleteUserById\<close>, which is none of the four consuming
  functions: deleting the user after a login removes the refresh row.
\<close>

theorem verification_never_mutates_counterexample:
  "tokens w_login = [refresh_row1] \<and>
   deleteUserById (user_id alice) w_login = (Inr alice, \<lparr>users = [], tokens = []\<rparr>)"
  by (simp add: ex_defs run_defs deleteUserById_def user_delete_def)

text \<open>
  Runs of the amended C6: a successful and a failed verification on the database after a
  login, the login itself, and the deletion of the user.
\<close>

theorem verification_never_mutates_witness:
  "snd (verifyToken cfg0 1700000000500 refresh1 REFRESH w_login) = w_login \<and>
   fst (verifyToken cfg0 1700000000500 refresh1 REFRESH w_login) = Inr refresh_row1 \<and>
   snd (verifyToken cfg0 1700000000500 access1 REFRESH w_login) = w_login \<and>
   fst (verifyToken cfg0 1700000000500 access1 REFRESH w_login) = Inl (Error ''Token not found'') \<and>
   tokens (snd (generateAuthTokens cfg0 utc login_inputs alice w_alice)) = tokens w_alice @ [refresh_row1] \<and>
   deleteUserById (user_id alice) w_login = (Inr alice, \<lparr>users = [], tokens = []\<rparr>) \<and>
   filter (\<lambda>r. token_userId r \<noteq> user_id alice) (tokens w_login) = []"
proof -
  have verify: "snd (verifyToken cfg0 1700000000500 refresh1 REFRESH w_login) = w_login"
    by (rule verification_never_mutates[THEN conjunct1])
  have cascade: "deleteUserById (user_id alice) w_login = (Inr alice, \<lparr>users = [], tokens = []\<rparr>) \<longrightarrow>
      tokens \<lparr>users = [], tokens = []\<rparr> = filter (\<lambda>r. token_userId r \<noteq> user_id alice) (tokens w_login)"
    by (rule verification_never_mutates[THEN conjunct2, THEN conjunct1])
  have run: "deleteUserById (user_id alice) w_login = (Inr alice, \<lparr>users = [], tokens = []\<rparr>)"
    by (simp add: ex_defs run_defs deleteUserById_def user_delete_def)
  from cascade run
  have gone: "filter (\<lambda>r. token_userId r \<noteq> user_id alice) (tokens w_login) = []"
    by simp
  have rest: "fst (verifyToken cfg0 1700000000500 refresh1 REFRESH w_login) = Inr refresh_row1 \<and>
      snd (verifyToken cfg0 1700000000500 access1 REFRESH w_login) = w_login \<and>
      fst (verifyToken cfg0 1700000000500 access1 REFRESH w_login) = Inl (Error ''Token not found'') \<and>
      tokens (snd (generateAuthTokens cfg0 utc login_inputs alice w_alice)) = tokens w_alice @ [refresh_row1]"
    by (simp add: ex_defs run_defs)
  from verify run gone rest show ?thesis by simp
qed

subsection \<open>C7: purging on consumption, not on issuance\<close>

text \<open>
  C7. When \<open>resetPassword\<close> resolves, no reset-password row of the owner of the
  consumed token remains, and every other row is kept; likewise for \<open>verifyEmail\<close>
  and the verify-email rows. Issuing a reset-password token, a verify-email token or an
  access and refresh pair removes no row.
\<close>

theorem consumption_purges_issuance_keeps:
  "(resetPassword cfg hash now tok pw w = (Inr (), w') \<longrightarrow>
      (\<exists>doc. verifyToken cfg now tok RESET_PASSWORD w = (Inr doc, w) \<and>
         filter (\<lambda>r. token_userId r = token_userId doc \<and> token_type r = RESET_PASSWORD) (tokens w') = [] \<and>
         tokens w' = filter (\<lambda>r. \<not> (token_userId r = token_userId doc \<and> token_type r = RESET_PASSWORD)) (tokens w))) \<and>
   (verifyEmail cfg hash now tok w = (Inr (), w') \<longrightarrow>
      (\<exists>doc. verifyToken cfg now tok VERIFY_EMAIL w = (Inr doc, w) \<and>
         filter (\<lambda>r. token_userId r = token_userId doc \<and> token_type r = VERIFY_EMAIL) (tokens w') = [] \<and>
         tokens w' = filter (\<lambda>r. \<not> (token_userId r = token_userId doc \<and> token_type r = VERIFY_EMAIL)) (tokens w))) \<and>
   (\<exists>new. tokens (snd (generateResetPasswordToken cfg inp1 em w)) = tokens w @ new) \<and>
   (\<exists>new. tokens (snd (generateVerifyEmailToken cfg inp1 user w)) = tokens w @ new) \<and>
   (\<exists>new. tokens (snd (generateAuthTokens cfg tz inp user w)) = tokens w @ new)"
proof (intro conjI impI)
  assume a: "resetPassword cfg hash now tok pw w = (Inr (), w')"
  from resetPassword_success[OF a] obtain doc where
    d: "verifyToken cfg now tok RESET_PASSWORD w = (Inr doc, w)"
      "tokens w' = filter (\<lambda>r. \<not> (token_userId r = token_userId doc \<and> token_type r = RESET_PASSWORD)) (tokens w)"
    by blast
  then have "filter (\<lambda>r. token_userId r = token_userId doc \<and> token_type r = RESET_PASSWORD) (tokens w') = []"
    by (auto simp: filter_empty_conv)
  with d show "\<exists>doc. verifyToken cfg now tok RESET_PASSWORD w = (Inr doc, w) \<and>
         filter (\<lambda>r. token_userId r = token_userId doc \<and> token_type r = RESET_PASSWORD) (tokens w') = [] \<and>
         tokens w' = filter (\<lambda>r. \<not> (token_userId r = token_userId doc \<and> token_type r = RESET_PASSWORD)) (tokens w)"
    by blast
next
  assume a: "verifyEmail cfg hash now tok w = (Inr (), w')"
  from verifyEmail_success[OF a] obtain doc where
    d: "verifyToken cfg now tok VERIFY_EMAIL w = (Inr doc, w)"
      "tokens w' = filter (\<lambda>r. \<not> (token_userId r = token_userId doc \<and> token_type r = VERIFY_EMAIL)) (tokens w)"
    by blast
  then have "filter (\<lambda>r. token_userId r = token_userId doc \<and> token_type r = VERIFY_EMAIL) (tokens w') = []"
    by (auto simp: filter_empty_conv)
  with d show "\<exists>doc. verifyToken cfg now tok VERIFY_EMAIL w = (Inr doc, w) \<and>
         filter (\<lambda>r. token_userId r = token_userId doc \<and> token_type r = VERIFY_EMAIL) (tokens w') = [] \<and>
         tokens w' = filter (\<lambda>r. \<not> (token_userId r = token_userId doc \<and> token_type r = VERIFY_EMAIL)) (tokens w)"
    by blast
qed (simp_all add: generateAuthTokens_keeps generateResetPasswordToken_keeps generateVerifyEmailToken_keeps)

text \<open>
  Runs of C7: a second reset-password token is issued next to the first, consuming it
  removes both, and consuming a verify-email token removes it; the refresh row stays.
\<close>

theorem consumption_purges_issuance_keeps_witness:
  "generateResetPasswordToken cfg0 second_issue ''alice@example.com'' w_one_reset =
     (Inr reset_b, w_two_resets) \<and>
   tokens w_two_resets = tokens w_one_reset @ [reset_row_b] \<and>
   resetPassword cfg0 hash0 1700000200000 reset_b ''Secret123!'' w_two_resets =
     (Inr (), \<lparr>users = [alice\<lparr>user_password := Some ''$2a$08$Secret123!''\<rparr>],
               tokens = [refresh_row1]\<rparr>) \<and>
   verifyEmail cfg0 hash0 1700000200000 verify_a w_verify =
     (Inr (), \<lparr>users = [alice\<lparr>user_isEmailVerified := True\<rparr>], tokens = [refresh_row1]\<rparr>)"
  using consumption_purges_issuance_keeps[of cfg0 hash0 1700000200000 reset_b "''Secret123!''"
      w_two_resets "\<lparr>users = [alice\<lparr>user_password := Some ''$2a$08$Secret123!''\<rparr>],
               tokens = [refresh_row1]\<rparr>"]
    consumption_purges_issuance_keeps[of cfg0 hash0 1700000200000 verify_a _
      w_verify "\<lparr>users = [alice\<lparr>user_isEmailVerified := True\<rparr>], tokens = [refresh_row1]\<rparr>"]
  by (simp add: ex_defs ex3_defs run_defs run2_defs)

subsection \<open>C8: a failed password reset changes nothing\<close>

text \<open>
  C8. When the reset-password token does not verify, for whatever reason,
  \<open>resetPassword\<close> rejects with 401 \<open>Password reset failed\<close> and the database,
  the stored password hash included, is unchanged. This is the case in particular for a
  token that is expired, signed with another key or no signed token at all, and for one
  that no row holds or only blacklisted rows hold.
\<close>

theorem resetPassword_failure_atomic:
  "(fst (verifyToken cfg now tok RESET_PASSWORD w) = Inl e \<longrightarrow>
      resetPassword cfg hash now tok newPassword w =
        (Inl (ApiError 401 ''Password reset failed''), w)) \<and>
   ((\<exists>p k. tok' = Signed p k \<and> (payload_exp p \<le> unix now \<or> k \<noteq> secret cfg)) \<or>
    (\<exists>s. tok' = Opaque s) \<or>
    list_all (\<lambda>r. token_token r \<noteq> tok' \<or> token_blacklisted r) (tokens w) \<longrightarrow>
      resetPassword cfg hash now tok' newPassword w =
        (Inl (ApiError 401 ''Password reset failed''), w))"
proof (intro conjI impI)
  assume "fst (verifyToken cfg now tok RESET_PASSWORD w) = Inl e"
  then show "resetPassword cfg hash now tok newPassword w =
        (Inl (ApiError 401 ''Password reset failed''), w)"
    by (rule resetPassword_rejected)
next
  assume "(\<exists>p k. tok' = Signed p k \<and> (payload_exp p \<le> unix now \<or> k \<noteq> secret cfg)) \<or>
    (\<exists>s. tok' = Opaque s) \<or>
    list_all (\<lambda>r. token_token r \<noteq> tok' \<or> token_blacklisted r) (tokens w)"
  then obtain e' where "fst (verifyToken cfg now tok' RESET_PASSWORD w) = Inl e'"
    using verifyToken_rejects by blast
  then show "resetPassword cfg hash now tok' newPassword w =
        (Inl (ApiError 401 ''Password reset failed''), w)"
    by (rule resetPassword_rejected)
qed

text \<open>
  Runs of C8: the token that expired a minute before it was issued, and a token that
  no row holds.
\<close>

theorem resetPassword_failure_atomic_witness:
  "fst (verifyToken cfg0 1700000000500 reset_expired RESET_PASSWORD w_expired) =
     Inl (TokenExpiredError ''jwt expired'') \<and>
   resetPassword cfg0 hash0 1700000000500 reset_expired ''Secret123!'' w_expired =
     (Inl (ApiError 401 ''Password reset failed''), w_expired) \<and>
   map user_password (users w_expired) = [Some ''$2a$08$old''] \<and>
   list_all (\<lambda>r. token_token r \<noteq> reset_a \<or> token_blacklisted r) (tokens w_expired) \<and>
   resetPassword cfg0 hash0 1700000000500 reset_a ''Secret123!'' w_expired =
     (Inl (ApiError 401 ''Password reset failed''), w_expired)"
  using resetPassword_failure_atomic[where cfg = cfg0 and now = 1700000000500
      and tok = reset_expired and w = w_expired and e = "TokenExpiredError ''jwt expired''"
      and hash = hash0 and newPassword = "''Secret123!''" and tok' = reset_a]
  by (simp add: ex_defs reset_a_def verifyToken_def jwt_verify_def unix_def)

subsection \<open>C9: uniqueness of the email address\<close>

text \<open>
  C9 does not hold of \<open>createUser\<close>: \<open>isEmailTaken\<close> compares the address as it
  is given, while \<open>getUserByEmail\<close> and \<open>getUserByEmailWithPassword\<close> lower-case it
  first. With \<open>alice@example.com\<close> registered, registering \<open>Alice@example.com\<close>
  succeeds and stores a second user; a lookup of that address still returns the first
  one. The same registration with the address in lower case is refused.
\<close>

theorem createUser_email_case_sensitive:
  "toLowerCase (email alice_upper) = user_email alice \<and>
   createUser hash0 ''ckuser0000000000000000002'' alice_upper w_alice =
     (Inr (without_password alice2), \<lparr>users = [alice, alice2], tokens = []\<rparr>) \<and>
   getUserByEmailWithPassword ''Alice@example.com'' \<lparr>users = [alice, alice2], tokens = []\<rparr> =
     (Inr (Some alice), \<lparr>users = [alice, alice2], tokens = []\<rparr>) \<and>
   createUser hash0 ''ckuser0000000000000000002'' (alice_upper\<lparr>email := ''alice@example.com''\<rparr>) w_alice =
     (Inl (ApiError 400 ''Email already taken''), w_alice)"
  by (simp add: ex_defs ex3_defs run_defs run2_defs)

subsection \<open>C10: the stored expiry is not consulted\<close>

text \<open>
  C10. Rewriting the \<open>expires\<close> column of any rows does not change the outcome of
  \<open>verifyToken\<close>: it rejects with the same error or resolves with the same row, which
  carries the rewritten column. A stored, not blacklisted row whose \<open>expires\<close> lies in
  the past verifies as long as the \<open>exp\<close> inside the token lies in the future.
\<close>

theorem verifyToken_ignores_stored_expires:
  "verifyToken cfg now tok ty (w\<lparr>tokens := map (\<lambda>r. r\<lparr>token_expires := g r\<rparr>) (tokens w)\<rparr>) =
     (map_sum id (\<lambda>r. r\<lparr>token_expires := g r\<rparr>) (fst (verifyToken cfg now tok ty w)),
      w\<lparr>tokens := map (\<lambda>r. r\<lparr>token_expires := g r\<rparr>) (tokens w)\<rparr>) \<and>
   (r \<in> set (tokens w') \<and> token_token r = Signed p (secret cfg) \<and> secret cfg \<noteq> [] \<and>
    token_type r = ty' \<and> token_userId r = payload_sub p \<and> \<not> token_blacklisted r \<and>
    token_expires r < now' \<and> unix now' < payload_exp p \<longrightarrow>
    (\<exists>doc. verifyToken cfg now' (Signed p (secret cfg)) ty' w' = (Inr doc, w') \<and>
           token_token doc = Signed p (secret cfg)))"
proof
  let ?f = "\<lambda>r. r\<lparr>token_expires := g r\<rparr>"
  show "verifyToken cfg now tok ty (w\<lparr>tokens := map ?f (tokens w)\<rparr>) =
     (map_sum id ?f (fst (verifyToken cfg now tok ty w)), w\<lparr>tokens := map ?f (tokens w)\<rparr>)"
    by (simp add: verifyToken_def token_findFirst_def find_map_expires
        split: sum.splits option.splits)
next
  show "r \<in> set (tokens w') \<and> token_token r = Signed p (secret cfg) \<and> secret cfg \<noteq> [] \<and>
    token_type r = ty' \<and> token_userId r = payload_sub p \<and> \<not> token_blacklisted r \<and>
    token_expires r < now' \<and> unix now' < payload_exp p \<longrightarrow>
    (\<exists>doc. verifyToken cfg now' (Signed p (secret cfg)) ty' w' = (Inr doc, w') \<and>
           token_token doc = Signed p (secret cfg))"
  proof
    assume a: "r \<in> set (tokens w') \<and> token_token r = Signed p (secret cfg) \<and> secret cfg \<noteq> [] \<and>
    token_type r = ty' \<and> token_userId r = payload_sub p \<and> \<not> token_blacklisted r \<and>
    token_expires r < now' \<and> unix now' < payload_exp p"
    let ?P = "\<lambda>r. token_token r = Signed p (secret cfg) \<and> token_type r = ty' \<and>
                  token_userId r = payload_sub p \<and> token_blacklisted r = False"
    from a have "?P r" "r \<in> set (tokens w')" by auto
    then obtain doc where d: "find ?P (tokens w') = Some doc"
      by (cases "find ?P (tokens w')") (auto simp: find_None_iff)
    then have "?P doc" by (auto dest: find_Some_iff[THEN iffD1])
    with a d show "\<exists>doc. verifyToken cfg now' (Signed p (secret cfg)) ty' w' = (Inr doc, w') \<and>
           token_token doc = Signed p (secret cfg)"
      by (simp add: verifyToken_def jwt_verify_def token_findFirst_def)
  qed
qed

text \<open>
  The run of C10 on the refresh row after a login, with its \<open>expires\<close> set to one
  second after the epoch.
\<close>

theorem verifyToken_ignores_stored_expires_witness:
  "verifyToken cfg0 1700000000500 refresh1 REFRESH
     (w_login\<lparr>tokens := map (\<lambda>r. r\<lparr>token_expires := 1000\<rparr>) (tokens w_login)\<rparr>) =
     (Inr (refresh_row1\<lparr>token_expires := 1000\<rparr>),
      w_login\<lparr>tokens := map (\<lambda>r. r\<lparr>token_expires := 1000\<rparr>) (tokens w_login)\<rparr>) \<and>
   verifyToken cfg0 1700000000500 refresh1 REFRESH w_login = (Inr refresh_row1, w_login) \<and>
   token_expires (refresh_row1\<lparr>token_expires := 1000\<rparr>) < 1700000000500 \<and>
   unix 1700000000500 < 1702592000"
  using verifyToken_ignores_stored_expires[where cfg = cfg0 and now = 1700000000500
      and tok = refresh1 and ty = REFRESH and w = w_login and g = "\<lambda>r. 1000"
      and r = "refresh_row1\<lparr>token_expires := 1000\<rparr>"
      and w' = "w_login\<lparr>tokens := map (\<lambda>r. r\<lparr>token_expires := 1000\<rparr>) (tokens w_login)\<rparr>"
      and p = "\<lparr>payload_sub = ''cjld2cjxh0000qzrmn831i7rn'', payload_iat = 1700000000,
                      payload_exp = 1702592000, payload_type = REFRESH\<rparr>"
      and ty' = REFRESH and now' = 1700000000500]
  by (simp add: ex_defs run_defs)

end
